theory Spec2Isabelle
  imports Complex_Main "HOL-Library.Sublist" "HOL-Library.Char_ord" "HOL-Library.List_Lexorder"
begin

section \<open>Python values used by \<open>src/utils/general_utils.py\<close>\<close>

text \<open>
  Exceptions are values. Only the exception classes that the functions of
  \<open>PreprocessingUtils\<close> raise, catch or let through are distinguished; the payload of
  \<open>ValueError\<close> and \<open>FileNotFoundError\<close> is the message text.
\<close>

datatype py_error =
    ValueError string
  | FileNotFoundError string
  | YAMLError string
  | TypeError
  | AttributeError
  | KeyError
  | OSError string
  | OtherError string

text \<open>
  What a call does besides returning: one constructor per \<open>print\<close> call site of the
  module (the two messages of \<open>fetch_csv_from_github\<close>, each with the raw URL, the
  error message also with the exception; the three messages of
  \<open>check_missing_transformations\<close>), and the one file the module writes:
  \<open>WriteCsv path column rows\<close> is a completed
  \<open>DataFrame(rows, columns=[column]).to_csv(path, index=False)\<close>.
  A function that has effects returns them as a list, in program order.
\<close>

datatype effect =
    PrintFetched string
  | PrintFetchError string py_error
  | PrintMissing "string list"
  | PrintReportSaved string
  | PrintNoMissing
  | WriteCsv string string "string list"

subsection \<open>Strings\<close>

text \<open>\<open>k in x\<close> on two strings: \<open>k\<close> occurs in \<open>x\<close> as a contiguous substring.\<close>

fun str_contains :: "string \<Rightarrow> string \<Rightarrow> bool" where
  "str_contains k [] = (k = [])"
| "str_contains k (c # cs) = (prefix k (c # cs) \<or> str_contains k cs)"

text \<open>\<open>s.split('|')\<close>: an explicit separator never yields an empty list, and empty
  fields are kept.\<close>

fun split_pipe :: "string \<Rightarrow> string list" where
  "split_pipe [] = [[]]"
| "split_pipe (c # cs) =
     (if c = CHR ''|'' then [] # split_pipe cs
      else (case split_pipe cs of
              [] \<Rightarrow> [[c]]
            | t # ts \<Rightarrow> (c # t) # ts))"

text \<open>\<open>'|'.join(ts)\<close>.\<close>

fun join_pipe :: "string list \<Rightarrow> string" where
  "join_pipe [] = []"
| "join_pipe [t] = t"
| "join_pipe (t # u # ts) = t @ CHR ''|'' # join_pipe (u # ts)"

text \<open>\<open>', '.join(ts)\<close>, used for the message of the missing configuration keys.\<close>

fun join_comma :: "string list \<Rightarrow> string" where
  "join_comma [] = []"
| "join_comma [t] = t"
| "join_comma (t # u # ts) = t @ '', '' @ join_comma (u # ts)"

text \<open>
  \<open>s.replace(old, new)\<close>: every non-overlapping occurrence of \<open>old\<close>, found from the
  left, is replaced. With an empty \<open>old\<close> Python puts \<open>new\<close> before every character and
  at the end.
\<close>

fun str_replace :: "string \<Rightarrow> string \<Rightarrow> string \<Rightarrow> string" where
  "str_replace [] new s = new @ concat (map (\<lambda>c. c # new) s)"
| "str_replace (a # old) new [] = []"
| "str_replace (a # old) new (c # cs) =
     (if prefix (a # old) (c # cs) then new @ str_replace (a # old) new (drop (length old) cs)
      else c # str_replace (a # old) new cs)"

text \<open>\<open>str(n)\<close> of an integer: decimal digits, a minus sign for a negative number.\<close>

definition digit_char :: "nat \<Rightarrow> char" where
  "digit_char d = ''0123456789'' ! d"

fun str_nat :: "nat \<Rightarrow> string" where
  "str_nat n = (if n < 10 then [digit_char n] else str_nat (n div 10) @ [digit_char (n mod 10)])"

declare str_nat.simps [simp del]

definition str_int :: "int \<Rightarrow> string" where
  "str_int i = (if i < 0 then CHR ''-'' # str_nat (nat (- i)) else str_nat (nat i))"

section \<open>Tables\<close>

text \<open>
  A data frame is the list of its rows, in row order. Every table of the module that is
  keyed by strategy has the column \<open>strategy_code\<close>; the other columns a function reads
  are fields of an extension of that record, and the columns it does not read stay in the
  record's \<open>more\<close> part. A cell of \<open>transformation_specification\<close> is a string or null
  (\<open>NaN\<close>, here \<open>None\<close>).
\<close>

subsection \<open>The float64 column \<open>value\<close>\<close>

text \<open>
  The column \<open>value\<close> of a result table is a float64 column. The module does three things
  to its cells: it assigns \<open>0.0\<close> (or the integer \<open>0\<close>, which the column stores as
  \<open>0.0\<close>), it multiplies by the literal \<open>0.5\<close>, and it copies. A float64 is \<open>NaN\<close>, an
  infinity with its sign, or a finite number: \<open>Finite64 s m e\<close> is \<open>m * 2 ^ e\<close>, negative when
  \<open>s\<close> holds, in the one form with \<open>m < 2 ^ 53\<close> and \<open>- 1074 \<le> e \<le> 971\<close> in which
  \<open>2 ^ 52 \<le> m\<close> unless \<open>e = - 1074\<close> (the subnormal numbers and the two zeros have
  \<open>e = - 1074\<close>). \<open>0\<close> is the positive zero.
\<close>

datatype float64 = NaN64 | Inf64 bool | Finite64 bool nat int

instantiation float64 :: zero
begin

definition zero_float64_def: "0 = Finite64 False 0 (- 1074)"

instance ..

end

text \<open>
  \<open>x * 0.5\<close> in float64 arithmetic. \<open>NaN\<close> and the infinities stay what they are. Above
  the least exponent the product is exact: the exponent goes down by one. At the least
  exponent the significand is halved and an odd one is rounded to the nearest even
  result, the rounding of IEEE 754 that the processor applies; the sign stays, so that a
  product can be a zero of either sign.
\<close>

fun times_half :: "float64 \<Rightarrow> float64" where
  "times_half NaN64 = NaN64"
| "times_half (Inf64 s) = Inf64 s"
| "times_half (Finite64 s m e) =
     (if - 1074 < e then Finite64 s m (e - 1)
      else Finite64 s (m div 2 + (if m mod 4 = 3 then 1 else 0)) (- 1074))"

text \<open>The real number that a finite float64 stands for; it serves to read the examples
  and to say where the halving is exact.\<close>

fun float64_real :: "float64 \<Rightarrow> real option" where
  "float64_real NaN64 = None"
| "float64_real (Inf64 s) = None"
| "float64_real (Finite64 s m e) = Some ((if s then - 1 else 1) * real m * 2 powi e)"

subsection \<open>Rows\<close>

record strategy_keyed =
  strategy_code :: string

record attr_row = strategy_keyed +
  transformation_specification :: "string option"

record result_row = strategy_keyed +
  variable :: string
  time_period :: int
  val :: float64

section \<open>remove_suffix_from_transformations\<close>

definition suffixes_to_remove :: "string list" where
  "suffixes_to_remove =
     [''_LOW'', ''_LOWEST'', ''_HIGHEST'', ''_HIGHER'', ''_HIGH'', ''_LOWER'',
      ''_FROMTECH'', ''_URBPLAN'']"

text \<open>
  The compiled pattern is \<open>(_LOW|_LOWEST|...|_URBPLAN)$\<close>. Without \<open>re.MULTILINE\<close>,
  \<open>$\<close> matches at the end of the string and also just before a newline that is the last
  character of the string: \<open>at_end\<close> is that test on the text left after an alternative.
\<close>

definition at_end :: "string \<Rightarrow> bool" where
  "at_end rest \<longleftrightarrow> rest = [] \<or> rest = [CHR 0x0A]"

text \<open>
  One attempt of the pattern at the start of \<open>s\<close>: the alternatives are tried in the
  order of the list, and an alternative that is not followed by \<open>$\<close> is given up for the
  next one. The result is the text after the match.
\<close>

fun match_here :: "string list \<Rightarrow> string \<Rightarrow> string option" where
  "match_here [] s = None"
| "match_here (suf # sufs) s =
     (if prefix suf s \<and> at_end (drop (length suf) s) then Some (drop (length suf) s)
      else match_here sufs s)"

text \<open>
  \<open>re.sub(pattern, '', t)\<close>: the string is scanned from the left; where the pattern
  matches, the match is dropped and the scan goes on behind it, elsewhere the character is
  kept. No alternative is empty, so the pattern never matches the empty string.
\<close>

function re_sub_suffix :: "string \<Rightarrow> string" where
  "re_sub_suffix [] = []"
| "re_sub_suffix (c # cs) =
     (case match_here suffixes_to_remove (c # cs) of
        Some rest \<Rightarrow> re_sub_suffix rest
      | None \<Rightarrow> c # re_sub_suffix cs)"
  by pat_completeness auto
termination
proof (relation "measure length")
  show "wf (measure length)" by simp
next
  fix c :: char and cs rest :: string
  assume m: "match_here suffixes_to_remove (c # cs) = Some rest"
  have shorter: "length r < length s"
    if "match_here sufs s = Some r" and "[] \<notin> set sufs" for sufs s r
    using that
  proof (induction sufs)
    case Nil
    then show ?case by simp
  next
    case (Cons suf sufs)
    then show ?case
      by (cases s) (auto split: if_splits)
  qed
  have "[] \<notin> set suffixes_to_remove"
    by (simp add: suffixes_to_remove_def)
  with m have "length rest < length (c # cs)"
    by (rule shorter)
  then show "(rest, c # cs) \<in> measure length" by simp
next
  fix c :: char and cs :: string
  show "(cs, c # cs) \<in> measure length" by simp
qed

definition clean_transformation_specification :: "string \<Rightarrow> string" where
  "clean_transformation_specification specification =
     join_pipe (map re_sub_suffix (split_pipe specification))"

text \<open>
  \<open>Series.apply\<close> calls the cleaning function on every cell, in row order; on a null
  cell (a float \<open>NaN\<close>) the call \<open>specification.split\<close> raises \<open>AttributeError\<close>.
\<close>

fun apply_clean :: "'a attr_row_scheme list \<Rightarrow> py_error + 'a attr_row_scheme list" where
  "apply_clean [] = Inr []"
| "apply_clean (r # rs) =
     (case transformation_specification r of
        None \<Rightarrow> Inl AttributeError
      | Some s \<Rightarrow>
          (case apply_clean rs of
             Inl e \<Rightarrow> Inl e
           | Inr rs' \<Rightarrow>
               Inr (r\<lparr>transformation_specification := Some (clean_transformation_specification s)\<rparr>
                    # rs')))"

definition remove_suffix_from_transformations ::
  "'a attr_row_scheme list \<Rightarrow> py_error + 'a attr_row_scheme list" where
  "remove_suffix_from_transformations attr_df = apply_clean attr_df"

section \<open>load_parameters_from_yaml\<close>

text \<open>
  What \<open>yaml.safe_load\<close> can return: a mapping is a Python dict, given by its items (the
  keys of a dict are pairwise different), a sequence is a list, a \<open>!!set\<close> node is a set;
  \<open>YOther\<close> is any other scalar (a timestamp, binary data), kept as its text.
\<close>

datatype yaml_value =
    YNull
  | YBool bool
  | YInt int
  | YFloat real
  | YStr string
  | YOther string
  | YList "yaml_value list"
  | YSet "yaml_value list"
  | YDict "(yaml_value \<times> yaml_value) list"

definition required_keys :: "string list" where
  "required_keys =
     [''country_id'', ''attr_primary_file_name'', ''attr_strategy_file_name'',
      ''ssp_output_data_file_name'', ''comparison_strategy_code'',
      ''transformation_names_url'']"

text \<open>
  \<open>key in params\<close> for a string \<open>key\<close>: a key of the dict, a member of the list or set,
  a substring of the string; on a value that is no container Python raises \<open>TypeError\<close>.
\<close>

fun py_in :: "string \<Rightarrow> yaml_value \<Rightarrow> py_error + bool" where
  "py_in key (YDict items) = Inr (YStr key \<in> fst ` set items)"
| "py_in key (YList xs) = Inr (YStr key \<in> set xs)"
| "py_in key (YSet xs) = Inr (YStr key \<in> set xs)"
| "py_in key (YStr s) = Inr (str_contains key s)"
| "py_in key YNull = Inl TypeError"
| "py_in key (YBool b) = Inl TypeError"
| "py_in key (YInt i) = Inl TypeError"
| "py_in key (YFloat x) = Inl TypeError"
| "py_in key (YOther t) = Inl TypeError"

text \<open>
  \<open>params[key]\<close> for a string \<open>key\<close>: the value of the dict under that key
  (\<open>KeyError\<close> when there is none); every other value either takes integer indices only
  or cannot be subscripted, and raises \<open>TypeError\<close>.
\<close>

fun py_getitem :: "yaml_value \<Rightarrow> string \<Rightarrow> py_error + yaml_value" where
  "py_getitem (YDict items) key =
     (case map_of items (YStr key) of
        None \<Rightarrow> Inl KeyError
      | Some v \<Rightarrow> Inr v)"
| "py_getitem YNull key = Inl TypeError"
| "py_getitem (YBool b) key = Inl TypeError"
| "py_getitem (YInt i) key = Inl TypeError"
| "py_getitem (YFloat x) key = Inl TypeError"
| "py_getitem (YStr s) key = Inl TypeError"
| "py_getitem (YOther t) key = Inl TypeError"
| "py_getitem (YList xs) key = Inl TypeError"
| "py_getitem (YSet xs) key = Inl TypeError"

text \<open>\<open>[key for key in keys if key not in params]\<close>; the first test that raises ends
  the comprehension.\<close>

fun missing_keys :: "yaml_value \<Rightarrow> string list \<Rightarrow> py_error + string list" where
  "missing_keys params [] = Inr []"
| "missing_keys params (key # keys) =
     (case py_in key params of
        Inl e \<Rightarrow> Inl e
      | Inr present \<Rightarrow>
          (case missing_keys params keys of
             Inl e \<Rightarrow> Inl e
           | Inr ms \<Rightarrow> Inr (if present then ms else key # ms)))"

text \<open>\<open>{key: params[key] for key in keys}\<close>: the new dict, as its items in insertion
  order.\<close>

fun select_keys :: "yaml_value \<Rightarrow> string list \<Rightarrow> py_error + (string \<times> yaml_value) list" where
  "select_keys params [] = Inr []"
| "select_keys params (key # keys) =
     (case py_getitem params key of
        Inl e \<Rightarrow> Inl e
      | Inr v \<Rightarrow>
          (case select_keys params keys of
             Inl e \<Rightarrow> Inl e
           | Inr d \<Rightarrow> Inr ((key, v) # d)))"

text \<open>
  The file system and the YAML parser are the function's environment: \<open>open_file path\<close>
  is the text of the file or the exception of \<open>open\<close>, \<open>safe_load text\<close> the parsed value
  or the exception of the parser (\<open>YAMLError\<close> with its message for text that does not
  parse). \<open>load_parameters_body\<close> is the \<open>try\<close> block.
\<close>

definition load_parameters_body ::
  "(string \<Rightarrow> py_error + string) \<Rightarrow> (string \<Rightarrow> py_error + yaml_value) \<Rightarrow> string
     \<Rightarrow> py_error + (string \<times> yaml_value) list" where
  "load_parameters_body open_file safe_load yaml_file_path =
     (case open_file yaml_file_path of
        Inl e \<Rightarrow> Inl e
      | Inr file \<Rightarrow>
          (case safe_load file of
             Inl e \<Rightarrow> Inl e
           | Inr params \<Rightarrow>
               (case missing_keys params required_keys of
                  Inl e \<Rightarrow> Inl e
                | Inr missing \<Rightarrow>
                    if missing \<noteq> []
                    then Inl (ValueError
                           (''Missing required parameters in YAML file: '' @ join_comma missing))
                    else select_keys params required_keys)))"

text \<open>The two \<open>except\<close> clauses; every other exception of the block goes on to the
  caller.\<close>

definition load_parameters_from_yaml ::
  "(string \<Rightarrow> py_error + string) \<Rightarrow> (string \<Rightarrow> py_error + yaml_value) \<Rightarrow> string
     \<Rightarrow> py_error + (string \<times> yaml_value) list" where
  "load_parameters_from_yaml open_file safe_load yaml_file_path =
     (case load_parameters_body open_file safe_load yaml_file_path of
        Inl (FileNotFoundError m) \<Rightarrow>
          Inl (FileNotFoundError
                 (''The specified YAML file was not found: '' @ yaml_file_path))
      | Inl (YAMLError e) \<Rightarrow> Inl (ValueError (''Error parsing YAML file: '' @ e))
      | r \<Rightarrow> r)"

section \<open>check_missing_transformations\<close>

record cost_definition_row =
  transformation_code :: string

text \<open>\<open>Series.dropna()\<close>: the cells that are not null, in order.\<close>

definition dropna :: "'a option list \<Rightarrow> 'a list" where
  "dropna cells = List.map_filter (\<lambda>c. c) cells"

definition report_path :: string where
  "report_path = ''debug/missing_transformations_report.csv''"

text \<open>
  The function returns \<open>None\<close>; its result here is its effects and \<open>Inr ()\<close> for the
  normal return. \<open>sorted\<close> of a set of strings is the increasing list of its elements,
  strings compared character by character. \<open>to_csv path column rows\<close> is the file system
  at the call \<open>df.to_csv(path, index=False)\<close> for the one-column table \<open>df\<close>: it says
  whether the write succeeds or which exception it raises (pandas raises \<open>OSError\<close> when
  the directory of the path does not exist, and the module creates no directory). The
  exception is not caught: it ends the function after the first \<open>print\<close>.
\<close>

definition check_missing_transformations ::
  "(string \<Rightarrow> string \<Rightarrow> string list \<Rightarrow> py_error + unit)
     \<Rightarrow> 'a attr_row_scheme list \<Rightarrow> 'b cost_definition_row_scheme list
     \<Rightarrow> effect list \<times> (py_error + unit)" where
  "check_missing_transformations to_csv attributes_df transformation_cost_definitions =
     (let transformations_series = dropna (map transformation_specification attributes_df);
          experiment_transformations = set (concat (map split_pipe transformations_series));
          tf_costs_transformations =
            set (map transformation_code transformation_cost_definitions);
          missing_transformations =
            sorted_list_of_set (experiment_transformations - tf_costs_transformations)
      in if missing_transformations \<noteq> []
         then (case to_csv report_path ''missing_transformations'' missing_transformations of
                 Inl e \<Rightarrow> ([PrintMissing missing_transformations], Inl e)
               | Inr written \<Rightarrow>
                   ([PrintMissing missing_transformations,
                     WriteCsv report_path ''missing_transformations'' missing_transformations,
                     PrintReportSaved report_path], Inr ()))
         else ([PrintNoMissing], Inr ()))"

section \<open>fetch_csv_from_github and the strategy matrix\<close>

definition raw_github_url :: "string \<Rightarrow> string" where
  "raw_github_url url =
     str_replace ''github.com'' ''raw.githubusercontent.com'' (str_replace ''/blob/'' ''/'' url)"

text \<open>
  \<open>read_csv\<close> is \<open>pd.read_csv\<close> on a URL: the parsed table, or the exception of the
  download or of the parser. The \<open>raise ValueError\<close> for an empty table stands inside the
  \<open>try\<close> block, and \<open>except Exception\<close> catches every exception of the block.
\<close>

definition fetch_csv_from_github ::
  "(string \<Rightarrow> py_error + 'r list) \<Rightarrow> string \<Rightarrow> effect list \<times> (py_error + 'r list option)" where
  "fetch_csv_from_github read_csv url =
     (let raw_url = raw_github_url url;
          body =
            (case read_csv raw_url of
               Inl e \<Rightarrow> Inl e
             | Inr df \<Rightarrow>
                 if df = []
                 then Inl (ValueError (''The CSV file fetched from '' @ raw_url @ '' is empty.''))
                 else Inr df)
      in case body of
           Inr df \<Rightarrow> ([PrintFetched raw_url], Inr (Some df))
         | Inl e \<Rightarrow> ([PrintFetchError raw_url e], Inr None))"

record transformer_row =
  transformer_code :: string

text \<open>\<open>list.remove\<close> deletes the first entry that equals its argument.\<close>

definition get_default_transformation_codes :: "'a transformer_row_scheme list \<Rightarrow> string list" where
  "get_default_transformation_codes transformer_df =
     (let column_names = map transformer_code transformer_df;
          column_names =
            (if ''TFR:BASE'' \<in> set column_names then remove1 ''TFR:BASE'' column_names
             else column_names)
      in map (str_replace ''TFR:'' ''TX:'') column_names)"

text \<open>
  The matrix that \<open>build_attribute_strategy_code\<close> returns has the columns
  \<open>['strategy_code'] + column_names\<close>. A row is its \<open>strategy_code\<close> and the cells under
  \<open>column_names\<close>, in column order; the column labels are returned with the rows. A cell
  is an integer, or a string where a known code is itself spelled \<open>strategy_code\<close>: the
  assignment \<open>df['strategy_code'] = strategies_list\<close> fills every column with that label.
\<close>

datatype cell = IntCell int | StrCell string

record indicator_row = strategy_keyed +
  indicator :: "cell list"

text \<open>\<open>pd.DataFrame(0, index=strategies_list, columns=['strategy_code'] + column_names)\<close>
  followed by \<open>df['strategy_code'] = strategies_list\<close>.\<close>

definition initial_matrix :: "string list \<Rightarrow> string list \<Rightarrow> indicator_row list" where
  "initial_matrix column_names strategies_list =
     map (\<lambda>s. \<lparr>strategy_code = s,
                 indicator = map (\<lambda>c. if c = ''strategy_code'' then StrCell s else IntCell 0)
                               column_names\<rparr>)
       strategies_list"

text \<open>
  \<open>loc_set_indicator\<close> is \<open>df.loc[df['strategy_code'] == code, transformation] = 1\<close>: in
  the rows of that strategy, every column with that label becomes 1. When a known code is
  spelled \<open>strategy_code\<close> the label \<open>strategy_code\<close> names more than one column,
  \<open>df['strategy_code']\<close> is then a table and no column, and the assignment raises
  \<open>KeyError\<close>.
\<close>

definition loc_set_indicator ::
  "string list \<Rightarrow> string \<Rightarrow> string \<Rightarrow> indicator_row list
     \<Rightarrow> py_error + indicator_row list" where
  "loc_set_indicator column_names code transformation df =
     (if ''strategy_code'' \<in> set column_names then Inl KeyError
      else Inr (map (\<lambda>r. if strategy_code r = code
                         then r\<lparr>indicator :=
                                map (\<lambda>(c, v). if c = transformation then IntCell 1 else v)
                                  (zip column_names (indicator r))\<rparr>
                         else r) df))"

text \<open>The inner loop over \<open>transformation_list\<close>; an exception ends it.\<close>

fun mark_transformations ::
  "string list \<Rightarrow> string \<Rightarrow> string list \<Rightarrow> indicator_row list
     \<Rightarrow> py_error + indicator_row list" where
  "mark_transformations column_names code [] df = Inr df"
| "mark_transformations column_names code (transformation # rest) df =
     (if transformation \<in> set column_names
      then (case loc_set_indicator column_names code transformation df of
              Inl e \<Rightarrow> Inl e
            | Inr df' \<Rightarrow> mark_transformations column_names code rest df')
      else mark_transformations column_names code rest df)"

text \<open>The outer loop over \<open>strategies_list\<close>: the rows of the attribute table with that
  strategy are selected, and \<open>.iloc[0]\<close> reads the specification of the first of them.\<close>

fun populate_strategies ::
  "string list \<Rightarrow> 'a attr_row_scheme list \<Rightarrow> string list \<Rightarrow> indicator_row list
     \<Rightarrow> py_error + indicator_row list" where
  "populate_strategies column_names attr_data_df [] df = Inr df"
| "populate_strategies column_names attr_data_df (code # rest) df =
     (case (case filter (\<lambda>r. strategy_code r = code) attr_data_df of
              [] \<Rightarrow> Inr df
            | strategy_row # others \<Rightarrow>
                (case transformation_specification strategy_row of
                   None \<Rightarrow> Inr df
                 | Some transformations \<Rightarrow>
                     mark_transformations column_names code (split_pipe transformations) df)) of
        Inl e \<Rightarrow> Inl e
      | Inr df' \<Rightarrow> populate_strategies column_names attr_data_df rest df')"

text \<open>
  When the fetch returned \<open>None\<close>, \<open>transformer_df['transformer_code']\<close> raises
  \<open>TypeError\<close>.
\<close>

definition build_attribute_strategy_code ::
  "(string \<Rightarrow> py_error + 'r transformer_row_scheme list) \<Rightarrow> string \<Rightarrow> string list
     \<Rightarrow> 'a attr_row_scheme list
     \<Rightarrow> effect list \<times> (py_error + string list \<times> indicator_row list)" where
  "build_attribute_strategy_code read_csv url strategies_list attr_data_df =
     (case fetch_csv_from_github read_csv url of
        (out, Inl e) \<Rightarrow> (out, Inl e)
      | (out, Inr None) \<Rightarrow> (out, Inl TypeError)
      | (out, Inr (Some transformer_df)) \<Rightarrow>
          (let column_names = get_default_transformation_codes transformer_df;
               df = initial_matrix column_names strategies_list
           in case populate_strategies column_names attr_data_df strategies_list df of
                Inl e \<Rightarrow> (out, Inl e)
              | Inr df' \<Rightarrow> (out, Inr (column_names, df'))))"

section \<open>perform_postprocessing\<close>

text \<open>
  A boolean mask is the list of its entries, one per row.
  \<open>any_in ks x\<close> is \<open>any(k in x for k in ks)\<close>; \<open>strategy_mask\<close> is
  \<open>(df["strategy_code"] == code) & (df["variable"].apply(lambda x: any(k in x for k in ks)))\<close>;
  \<open>loc_set_val cond v\<close> is \<open>df.loc[cond, "value"] = v\<close> and \<open>loc_halve_val cond\<close> is
  \<open>df.loc[cond, "value"] *= 0.5\<close>.
\<close>

definition any_in :: "string list \<Rightarrow> string \<Rightarrow> bool" where
  "any_in ks x = list_ex (\<lambda>k. str_contains k x) ks"

definition strategy_mask ::
  "string \<Rightarrow> string list \<Rightarrow> 'a result_row_scheme list \<Rightarrow> bool list" where
  "strategy_mask code ks df = map (\<lambda>r. strategy_code r = code \<and> any_in ks (variable r)) df"

definition loc_set_val ::
  "bool list \<Rightarrow> float64 \<Rightarrow> 'a result_row_scheme list \<Rightarrow> 'a result_row_scheme list" where
  "loc_set_val cond v df = map (\<lambda>(r, m). if m then r\<lparr>val := v\<rparr> else r) (zip df cond)"

definition loc_halve_val ::
  "bool list \<Rightarrow> 'a result_row_scheme list \<Rightarrow> 'a result_row_scheme list" where
  "loc_halve_val cond df =
     map (\<lambda>(r, m). if m then r\<lparr>val := times_half (val r)\<rparr> else r) (zip df cond)"

text \<open>The transport and waste corrections: the statements up to the time shift.\<close>

definition corrective_rules :: "'a result_row_scheme list \<Rightarrow> 'a result_row_scheme list" where
  "corrective_rules results_all_pp =
     (let df = results_all_pp;
          cond_transport_cb_issues_better_base =
            strategy_mask ''PFLO:BETTER_BASE'' [''congestion'', ''road_safety''] df;
          cond_transport_cb_issues_supply_side_tech =
            strategy_mask ''PFLO:SUPPLY_SIDE_TECH'' [''congestion'', ''road_safety''] df;
          df = loc_set_val cond_transport_cb_issues_better_base 0 df;
          df = loc_set_val cond_transport_cb_issues_supply_side_tech 0 df;
          cond_cut_ben_in_half_all_plur =
            strategy_mask ''PFLO:ALL_PLUR'' [''congestion'', ''road_safety''] df;
          cond_cut_ben_in_half_all_non_stopping_def_plur =
            strategy_mask ''PFLO:ALL_NO_STOPPING_DEFORESTATION_PLUR''
              [''congestion'', ''road_safety''] df;
          df = loc_halve_val cond_cut_ben_in_half_all_plur df;
          df = loc_halve_val cond_cut_ben_in_half_all_non_stopping_def_plur df;
          cond_waso_cb_issue =
            strategy_mask ''PFLO:SUPPLY_SIDE_TECH''
              [''cb:waso:technical_cost:waste_management''] df;
          df = loc_set_val cond_waso_cb_issue 0 df
      in df)"

text \<open>
  The time shift. \<open>tx_start\<close> and \<open>time_period_0\<close> are
  \<open>SSP_GLOBAL_TIME_PERIOD_TX_START\<close> and \<open>SSP_GLOBAL_TIME_PERIOD_0\<close> of \<open>cb_config\<close>.
  \<open>df.query\<close> returns the selected rows as a new table, the two column assignments
  change that table, and \<open>pd.concat\<close> puts its rows behind those of \<open>df\<close>.
\<close>

definition shift_early_costs ::
  "int \<Rightarrow> int \<Rightarrow> 'a result_row_scheme list \<Rightarrow> 'a result_row_scheme list" where
  "shift_early_costs tx_start time_period_0 df0 =
     (let df = df0;
          res_pre2025 = filter (\<lambda>r. time_period r < tx_start) df;
          res_pre2025 =
            map (\<lambda>r. r\<lparr>variable :=
                        variable r @ ''_shifted'' @ str_int (time_period r + time_period_0)\<rparr>)
              res_pre2025;
          res_pre2025 = map (\<lambda>r. r\<lparr>time_period := time_period r + tx_start\<rparr>) res_pre2025;
          df = df @ res_pre2025;
          df = loc_set_val (map (\<lambda>r. time_period r < tx_start) df) 0 df
      in df)"

definition perform_postprocessing ::
  "int \<Rightarrow> int \<Rightarrow> 'a result_row_scheme list \<Rightarrow> 'a result_row_scheme list" where
  "perform_postprocessing tx_start time_period_0 results_all_pp =
     shift_early_costs tx_start time_period_0 (corrective_rules results_all_pp)"

section \<open>Tables as objects: which statements change which table\<close>

text \<open>
  A data frame is a mutable object. To say which object a function changes, the tables
  live in a heap: \<open>cells h a\<close> is the table at address \<open>a\<close>, and the addresses below
  \<open>next_free h\<close> are the objects that exist. \<open>heap_new\<close> is the creation of an object
  (the result of \<open>copy\<close>, \<open>query\<close>, \<open>concat\<close>, \<open>melt\<close>, \<open>merge\<close>, a selection of columns or
  an aggregation), \<open>heap_set\<close> an assignment into an existing object
  (\<open>df[...] = ...\<close>, \<open>df.loc[...] = ...\<close>).
\<close>

record 'df heap =
  cells :: "nat \<Rightarrow> 'df"
  next_free :: nat

definition heap_new :: "'df heap \<Rightarrow> 'df \<Rightarrow> nat \<times> 'df heap" where
  "heap_new h t = (next_free h, h\<lparr>cells := (cells h)(next_free h := t), next_free := Suc (next_free h)\<rparr>)"

definition heap_copy :: "'df heap \<Rightarrow> nat \<Rightarrow> nat \<times> 'df heap" where
  "heap_copy h a = heap_new h (cells h a)"

definition heap_set :: "'df heap \<Rightarrow> nat \<Rightarrow> 'df \<Rightarrow> 'df heap" where
  "heap_set h a t = h\<lparr>cells := (cells h)(a := t)\<rparr>"

text \<open>\<open>remove_suffix_from_transformations\<close>, statement by statement: the copy, then the
  assignment of the cleaned column into the copy.\<close>

definition remove_suffix_from_transformations_heap ::
  "'a attr_row_scheme list heap \<Rightarrow> nat \<Rightarrow> (py_error + nat) \<times> 'a attr_row_scheme list heap" where
  "remove_suffix_from_transformations_heap h attr_df =
     (case heap_copy h attr_df of
        (df, h) \<Rightarrow>
          (case apply_clean (cells h df) of
             Inl e \<Rightarrow> (Inl e, h)
           | Inr cleaned \<Rightarrow> (Inr df, heap_set h df cleaned)))"

text \<open>
  \<open>perform_postprocessing\<close>, statement by statement, in its two parts: the corrective
  rules, which assign into the copy \<open>df\<close>, and the time shift, which makes the further
  copy \<open>results_all_pp_before_shift\<close>, the selection \<open>res_pre2025\<close> and the concatenation.
\<close>

definition corrective_rules_heap ::
  "'a result_row_scheme list heap \<Rightarrow> nat \<Rightarrow> 'a result_row_scheme list heap" where
  "corrective_rules_heap h0 df =
     (let h = h0;
          cond_transport_cb_issues_better_base =
            strategy_mask ''PFLO:BETTER_BASE'' [''congestion'', ''road_safety''] (cells h df);
          cond_transport_cb_issues_supply_side_tech =
            strategy_mask ''PFLO:SUPPLY_SIDE_TECH'' [''congestion'', ''road_safety'']
              (cells h df);
          h = heap_set h df (loc_set_val cond_transport_cb_issues_better_base 0 (cells h df));
          h = heap_set h df
                (loc_set_val cond_transport_cb_issues_supply_side_tech 0 (cells h df));
          cond_cut_ben_in_half_all_plur =
            strategy_mask ''PFLO:ALL_PLUR'' [''congestion'', ''road_safety''] (cells h df);
          cond_cut_ben_in_half_all_non_stopping_def_plur =
            strategy_mask ''PFLO:ALL_NO_STOPPING_DEFORESTATION_PLUR''
              [''congestion'', ''road_safety''] (cells h df);
          h = heap_set h df (loc_halve_val cond_cut_ben_in_half_all_plur (cells h df));
          h = heap_set h df
                (loc_halve_val cond_cut_ben_in_half_all_non_stopping_def_plur (cells h df));
          cond_waso_cb_issue =
            strategy_mask ''PFLO:SUPPLY_SIDE_TECH''
              [''cb:waso:technical_cost:waste_management''] (cells h df);
          h = heap_set h df (loc_set_val cond_waso_cb_issue 0 (cells h df))
      in h)"

definition shift_early_costs_heap ::
  "int \<Rightarrow> int \<Rightarrow> 'a result_row_scheme list heap \<Rightarrow> nat
     \<Rightarrow> nat \<times> 'a result_row_scheme list heap" where
  "shift_early_costs_heap tx_start time_period_0 h0 df0 =
     (case heap_copy h0 df0 of
        (results_all_pp_before_shift, h) \<Rightarrow>
     (case heap_new h (filter (\<lambda>r. time_period r < tx_start) (cells h df0)) of
        (res_pre2025, h) \<Rightarrow>
     (let h = heap_set h res_pre2025
                (map (\<lambda>r. r\<lparr>variable :=
                            variable r @ ''_shifted''
                              @ str_int (time_period r + time_period_0)\<rparr>)
                   (cells h res_pre2025));
          h = heap_set h res_pre2025
                (map (\<lambda>r. r\<lparr>time_period := time_period r + tx_start\<rparr>) (cells h res_pre2025))
      in case heap_new h (cells h df0 @ cells h res_pre2025) of
        (df, h) \<Rightarrow>
     (let h = heap_set h df
                (loc_set_val (map (\<lambda>r. time_period r < tx_start) (cells h df)) 0 (cells h df))
      in (df, h)))))"

definition perform_postprocessing_heap ::
  "int \<Rightarrow> int \<Rightarrow> 'a result_row_scheme list heap \<Rightarrow> nat
     \<Rightarrow> nat \<times> 'a result_row_scheme list heap" where
  "perform_postprocessing_heap tx_start time_period_0 h results_all_pp =
     (case heap_copy h results_all_pp of
        (df, h) \<Rightarrow> shift_early_costs_heap tx_start time_period_0 (corrective_rules_heap h df) df)"

text \<open>
  \<open>add_total_tlu_calculation\<close>. What the pandas operations compute is left open: each is
  a function from the operand tables to a new table or an exception. \<open>ids\<close> is
  \<open>SSP_GLOBAL_SIMULATION_IDENTIFIERS\<close> of \<open>cb_config\<close>. \<open>pd_select\<close> is \<open>df[columns]\<close>,
  \<open>pd_melt\<close> is \<open>melt(id_vars=...)\<close>, \<open>pd_merge\<close> is \<open>merge(right=..., on=...)\<close>,
  \<open>pd_product\<close> gives the table with the column \<open>total_tlu\<close> set to the product of
  \<open>value\<close> and \<open>TLU\<close>, and \<open>pd_groupby_sum\<close> is the chain
  \<open>groupby(ids).agg({"total_tlu": sum}).rename(...).reset_index()\<close>.
\<close>

record 'df pandas =
  pd_select :: "string list \<Rightarrow> 'df \<Rightarrow> py_error + 'df"
  pd_melt :: "string list \<Rightarrow> 'df \<Rightarrow> py_error + 'df"
  pd_merge :: "string list \<Rightarrow> 'df \<Rightarrow> 'df \<Rightarrow> py_error + 'df"
  pd_product :: "string \<Rightarrow> string \<Rightarrow> string \<Rightarrow> 'df \<Rightarrow> py_error + 'df"
  pd_groupby_sum :: "string list \<Rightarrow> string \<Rightarrow> string \<Rightarrow> 'df \<Rightarrow> py_error + 'df"

definition add_total_tlu_calculation_heap ::
  "'df pandas \<Rightarrow> string list \<Rightarrow> 'df heap \<Rightarrow> nat \<Rightarrow> nat \<Rightarrow> string list
     \<Rightarrow> (py_error + nat) \<times> 'df heap" where
  "add_total_tlu_calculation_heap pd ids h df tlu_conversions_df cols_to_keep =
     (case heap_copy h df of
        (cb_input_df, h) \<Rightarrow>
     (case pd_select pd (ids @ filter (str_contains ''pop_lvst'') cols_to_keep)
             (cells h cb_input_df) of
        Inl e \<Rightarrow> (Inl e, h)
      | Inr t \<Rightarrow>
     (case heap_new h t of
        (pop_livestock, h) \<Rightarrow>
     (case pd_melt pd
             [''primary_id'', ''time_period'', ''region'', ''strategy_code'', ''future_id'']
             (cells h pop_livestock) of
        Inl e \<Rightarrow> (Inl e, h)
      | Inr t \<Rightarrow>
     (case heap_new h t of
        (pop_livestock, h) \<Rightarrow>
     (case pd_merge pd [''variable''] (cells h pop_livestock) (cells h tlu_conversions_df) of
        Inl e \<Rightarrow> (Inl e, h)
      | Inr t \<Rightarrow>
     (case heap_new h t of
        (pop_livestock, h) \<Rightarrow>
     (case pd_product pd ''total_tlu'' ''value'' ''TLU'' (cells h pop_livestock) of
        Inl e \<Rightarrow> (Inl e, h)
      | Inr t \<Rightarrow>
     (let h = heap_set h pop_livestock t
      in case pd_groupby_sum pd ids ''total_tlu'' ''lvst_total_tlu'' (cells h pop_livestock) of
        Inl e \<Rightarrow> (Inl e, h)
      | Inr t \<Rightarrow>
     (case heap_new h t of
        (pop_livestock_summarized, h) \<Rightarrow>
     (case pd_merge pd ids (cells h cb_input_df) (cells h pop_livestock_summarized) of
        Inl e \<Rightarrow> (Inl e, h)
      | Inr t \<Rightarrow>
     (case heap_new h t of
        (merged, h) \<Rightarrow> (Inr merged, h)))))))))))))"

section \<open>The indicator as the specification words it\<close>

text \<open>
  This definition follows the words of the specification, not the source: the cell for a
  strategy and a code is 1 if the strategy appears in the attribute table with a non-null
  \<open>transformation_specification\<close> whose tokens contain the code, in any of its rows, and
  0 otherwise. It is compared with what \<open>build_attribute_strategy_code\<close> computes.
\<close>

definition claimed_indicator :: "'a attr_row_scheme list \<Rightarrow> string \<Rightarrow> string \<Rightarrow> int" where
  "claimed_indicator attr_data_df code c =
     (if \<exists>r\<in>set attr_data_df. strategy_code r = code
           \<and> (case transformation_specification r of
                 None \<Rightarrow> False
               | Some transformations \<Rightarrow> c \<in> set (split_pipe transformations))
      then 1 else 0)"

section \<open>Lemmas on the table operations\<close>

subsection \<open>Masks and assignments\<close>

lemma zip_map_map_same: "zip (map g xs) (map f xs) = map (\<lambda>x. (g x, f x)) xs"
  by (induction xs) simp_all

lemma loc_set_val_map:
  "loc_set_val (map P xs) v (map g xs) = map (\<lambda>x. if P x then (g x)\<lparr>val := v\<rparr> else g x) xs"
  by (simp add: loc_set_val_def zip_map_map_same)

lemma loc_halve_val_map:
  "loc_halve_val (map P xs) (map g xs) =
     map (\<lambda>x. if P x then (g x)\<lparr>val := times_half (val (g x))\<rparr> else g x) xs"
  by (simp add: loc_halve_val_def zip_map_map_same)

lemma loc_set_val_same:
  "loc_set_val (map P xs) v xs = map (\<lambda>x. if P x then x\<lparr>val := v\<rparr> else x) xs"
  using loc_set_val_map [of P xs v "\<lambda>x. x"] by simp

lemma strategy_mask_map:
  assumes "\<And>r. strategy_code (g r) = strategy_code r" and "\<And>r. variable (g r) = variable r"
  shows "strategy_mask code ks (map g df) = strategy_mask code ks df"
  by (simp add: strategy_mask_def assms)

text \<open>
  The five assignments of the corrective rules, for any strategy codes and keyword lists:
  a mask read from a table whose values were changed is the mask of the table before the
  change, so the statements act row by row. The two halved strategies must differ, or a
  row would be halved twice.
\<close>

lemma rules_rowwise:
  fixes df :: "'a result_row_scheme list"
  assumes ne: "c3 \<noteq> c4"
  shows "(let cond1 = strategy_mask c1 k df;
          cond2 = strategy_mask c2 k df;
          df1 = loc_set_val cond1 0 df;
          df2 = loc_set_val cond2 0 df1;
          cond3 = strategy_mask c3 k df2;
          cond4 = strategy_mask c4 k df2;
          df3 = loc_halve_val cond3 df2;
          df4 = loc_halve_val cond4 df3;
          cond5 = strategy_mask c5 k5 df4;
          df5 = loc_set_val cond5 0 df4
      in df5) =
     map (\<lambda>r. if strategy_code r = c5 \<and> any_in k5 (variable r) then r\<lparr>val := 0\<rparr> else r)
       (map (\<lambda>r. if (strategy_code r = c3 \<or> strategy_code r = c4) \<and> any_in k (variable r)
                 then r\<lparr>val := times_half (val r)\<rparr> else r)
          (map (\<lambda>r. if (strategy_code r = c1 \<or> strategy_code r = c2) \<and> any_in k (variable r)
                    then r\<lparr>val := 0\<rparr> else r)
             df))"
proof -
  let ?g1 = "\<lambda>r :: 'a result_row_scheme.
    if strategy_code r = c1 \<and> any_in k (variable r) then r\<lparr>val := 0\<rparr> else r"
  let ?g2 = "\<lambda>r :: 'a result_row_scheme.
    if strategy_code r = c2 \<and> any_in k (variable r) then (?g1 r)\<lparr>val := 0\<rparr> else ?g1 r"
  let ?g3 = "\<lambda>r :: 'a result_row_scheme.
    if strategy_code r = c3 \<and> any_in k (variable r)
    then (?g2 r)\<lparr>val := times_half (val (?g2 r))\<rparr> else ?g2 r"
  let ?g4 = "\<lambda>r :: 'a result_row_scheme.
    if strategy_code r = c4 \<and> any_in k (variable r)
    then (?g3 r)\<lparr>val := times_half (val (?g3 r))\<rparr> else ?g3 r"
  let ?g5 = "\<lambda>r :: 'a result_row_scheme.
    if strategy_code r = c5 \<and> any_in k5 (variable r) then (?g4 r)\<lparr>val := 0\<rparr> else ?g4 r"
  have d1: "loc_set_val (strategy_mask c1 k df) 0 df = map ?g1 df"
    by (simp add: strategy_mask_def loc_set_val_same)
  have d2: "loc_set_val (strategy_mask c2 k df) 0 (map ?g1 df) = map ?g2 df"
    unfolding strategy_mask_def by (rule loc_set_val_map)
  have m2: "strategy_mask code ks (map ?g2 df) = strategy_mask code ks df" for code ks
    by (rule strategy_mask_map) simp_all
  have d3: "loc_halve_val (strategy_mask c3 k df) (map ?g2 df) = map ?g3 df"
    unfolding strategy_mask_def by (rule loc_halve_val_map)
  have d4: "loc_halve_val (strategy_mask c4 k df) (map ?g3 df) = map ?g4 df"
    unfolding strategy_mask_def by (rule loc_halve_val_map)
  have m4: "strategy_mask code ks (map ?g4 df) = strategy_mask code ks df" for code ks
    by (rule strategy_mask_map) simp_all
  have d5: "loc_set_val (strategy_mask c5 k5 df) 0 (map ?g4 df) = map ?g5 df"
    unfolding strategy_mask_def by (rule loc_set_val_map)
  have lhs: "(let cond1 = strategy_mask c1 k df;
          cond2 = strategy_mask c2 k df;
          df1 = loc_set_val cond1 0 df;
          df2 = loc_set_val cond2 0 df1;
          cond3 = strategy_mask c3 k df2;
          cond4 = strategy_mask c4 k df2;
          df3 = loc_halve_val cond3 df2;
          df4 = loc_halve_val cond4 df3;
          cond5 = strategy_mask c5 k5 df4;
          df5 = loc_set_val cond5 0 df4
      in df5) = map ?g5 df"
    unfolding Let_def by (simp only: d1 d2 m2 d3 d4 m4 d5)
  show ?thesis
    unfolding lhs map_map comp_def
    using ne by (intro map_cong [OF refl]) auto
qed

lemma corrective_rules_map:
  "corrective_rules df =
     map (\<lambda>r. if strategy_code r = ''PFLO:SUPPLY_SIDE_TECH''
                 \<and> any_in [''cb:waso:technical_cost:waste_management''] (variable r)
              then r\<lparr>val := 0\<rparr> else r)
       (map (\<lambda>r. if (strategy_code r = ''PFLO:ALL_PLUR''
                      \<or> strategy_code r = ''PFLO:ALL_NO_STOPPING_DEFORESTATION_PLUR'')
                    \<and> any_in [''congestion'', ''road_safety''] (variable r)
                 then r\<lparr>val := times_half (val r)\<rparr> else r)
          (map (\<lambda>r. if (strategy_code r = ''PFLO:BETTER_BASE''
                         \<or> strategy_code r = ''PFLO:SUPPLY_SIDE_TECH'')
                       \<and> any_in [''congestion'', ''road_safety''] (variable r)
                    then r\<lparr>val := 0\<rparr> else r)
             df))"
  unfolding corrective_rules_def Let_def
  by (rule rules_rowwise [unfolded Let_def]) simp

lemma corrective_rules_fields:
  "map strategy_code (corrective_rules df) = map strategy_code df"
  "map variable (corrective_rules df) = map variable df"
  "map time_period (corrective_rules df) = map time_period df"
  "length (corrective_rules df) = length df"
  by (simp_all add: corrective_rules_map comp_def)

lemma shift_early_costs_append:
  "shift_early_costs tx_start time_period_0 df =
     map (\<lambda>r. if time_period r < tx_start then r\<lparr>val := 0\<rparr> else r) df
     @ map (\<lambda>r. if time_period r < tx_start then r\<lparr>val := 0\<rparr> else r)
         (map (\<lambda>r. r\<lparr>variable :=
                      variable r @ ''_shifted'' @ str_int (time_period r + time_period_0),
                    time_period := time_period r + tx_start\<rparr>)
            (filter (\<lambda>r. time_period r < tx_start) df))"
  unfolding shift_early_costs_def Let_def loc_set_val_same
  by (simp add: comp_def)

lemma shift_early_costs_nonneg:
  assumes "\<forall>r\<in>set df. 0 \<le> time_period r"
  shows "shift_early_costs tx_start time_period_0 df =
     map (\<lambda>r. if time_period r < tx_start then r\<lparr>val := 0\<rparr> else r) df
     @ map (\<lambda>r. r\<lparr>variable :=
                    variable r @ ''_shifted'' @ str_int (time_period r + time_period_0),
                  time_period := time_period r + tx_start\<rparr>)
         (filter (\<lambda>r. time_period r < tx_start) df)"
  unfolding shift_early_costs_append
  using assms by (auto simp: comp_def intro!: map_cong)

lemma postprocessing_nth:
  assumes "i < length df" and "tx_start \<le> time_period (df ! i)"
  shows "perform_postprocessing tx_start time_period_0 df ! i = corrective_rules df ! i"
proof -
  have len: "i < length (corrective_rules df)"
    using assms(1) by (simp add: corrective_rules_fields)
  have "time_period (corrective_rules df ! i) = map time_period (corrective_rules df) ! i"
    using len by simp
  also have "\<dots> = time_period (df ! i)"
    using assms(1) by (simp add: corrective_rules_fields)
  finally have tp: "\<not> time_period (corrective_rules df ! i) < tx_start"
    using assms(2) by simp
  show ?thesis
    unfolding perform_postprocessing_def shift_early_costs_append
    using len tp by (simp add: nth_append)
qed

lemma corrective_rules_keep:
  assumes "i < length df"
    and "\<not> ((strategy_code (df ! i) = ''PFLO:BETTER_BASE''
              \<or> strategy_code (df ! i) = ''PFLO:SUPPLY_SIDE_TECH'')
             \<and> any_in [''congestion'', ''road_safety''] (variable (df ! i)))"
    and "\<not> ((strategy_code (df ! i) = ''PFLO:ALL_PLUR''
              \<or> strategy_code (df ! i) = ''PFLO:ALL_NO_STOPPING_DEFORESTATION_PLUR'')
             \<and> any_in [''congestion'', ''road_safety''] (variable (df ! i)))"
    and "\<not> (strategy_code (df ! i) = ''PFLO:SUPPLY_SIDE_TECH''
             \<and> any_in [''cb:waso:technical_cost:waste_management''] (variable (df ! i)))"
  shows "corrective_rules df ! i = df ! i"
  unfolding corrective_rules_map map_map
  using assms by (auto simp: comp_def)

text \<open>
  \<open>k in x\<close> holds where \<open>x\<close> is some text, then \<open>k\<close>, then some text. Halving a finite
  float64 gives the exact half unless the number has the least exponent and an odd
  significand.
\<close>

lemma str_contains_sublist: "str_contains k x \<longleftrightarrow> (\<exists>ps ss. x = ps @ k @ ss)"
proof (induction x)
  case Nil
  show ?case by auto
next
  case (Cons c cs)
  show ?case
  proof
    assume "str_contains k (c # cs)"
    then consider "prefix k (c # cs)" | "str_contains k cs" by auto
    then show "\<exists>ps ss. c # cs = ps @ k @ ss"
    proof cases
      case 1
      then obtain ss where "c # cs = k @ ss" by (auto simp: prefix_def)
      then have "c # cs = [] @ k @ ss" by simp
      then show ?thesis by blast
    next
      case 2
      with Cons obtain ps ss where "cs = ps @ k @ ss" by blast
      then have "c # cs = (c # ps) @ k @ ss" by simp
      then show ?thesis by blast
    qed
  next
    assume "\<exists>ps ss. c # cs = ps @ k @ ss"
    then obtain ps ss where e: "c # cs = ps @ k @ ss" by blast
    show "str_contains k (c # cs)"
    proof (cases ps)
      case Nil
      with e have "prefix k (c # cs)" by (simp add: prefix_def)
      then show ?thesis by simp
    next
      case (Cons p ps')
      with e have "cs = ps' @ k @ ss" by simp
      with Cons.IH have "str_contains k cs" by blast
      then show ?thesis by simp
    qed
  qed
qed

lemma any_in_sublist: "any_in ks x \<longleftrightarrow> (\<exists>k\<in>set ks. \<exists>ps ss. x = ps @ k @ ss)"
  by (simp add: any_in_def list_ex_iff str_contains_sublist)

lemma times_half_exact:
  assumes "- 1074 < e \<or> e = - 1074 \<and> even m"
  shows "float64_real (times_half (Finite64 s m e))
     = Some ((if s then - 1 else 1) * real m * 2 powi e * 0.5)"
proof (cases "- 1074 < e")
  case True
  have "(2::real) powi (e - 1) = 2 powi e * 0.5"
    by (simp add: power_int_diff)
  with True show ?thesis by simp
next
  case False
  with assms have e: "e = - 1074" and ev: "even m" by auto
  from ev have m4: "m mod 4 \<noteq> 3"
    by presburger
  from ev have "real (m div 2) = real m * 0.5"
    by (auto elim!: evenE)
  with e m4 show ?thesis by simp
qed

subsection \<open>The configuration loader\<close>

lemma missing_keys_dict:
  "missing_keys (YDict items) ks = Inr (filter (\<lambda>k. YStr k \<notin> fst ` set items) ks)"
  by (induction ks) simp_all

lemma select_keys_dict:
  assumes "\<forall>k\<in>set ks. YStr k \<in> fst ` set items"
  shows "\<exists>d. select_keys (YDict items) ks = Inr d \<and> map fst d = ks
           \<and> (\<forall>k v. (k, v) \<in> set d \<longrightarrow> map_of items (YStr k) = Some v)"
  using assms
proof (induction ks)
  case Nil
  then show ?case by simp
next
  case (Cons k ks)
  then obtain d where d: "select_keys (YDict items) ks = Inr d" "map fst d = ks"
      "\<forall>k v. (k, v) \<in> set d \<longrightarrow> map_of items (YStr k) = Some v"
    by auto
  from Cons.prems have "YStr k \<in> fst ` set items" by simp
  then obtain v where v: "map_of items (YStr k) = Some v"
    by (metis domD dom_map_of_conv_image_fst)
  show ?case
    using d v by auto
qed

lemma select_keys_Inr_dict:
  assumes "select_keys params (k # ks) = Inr d"
  shows "\<exists>items. params = YDict items"
  using assms by (cases params) simp_all

lemma load_Inr_body:
  "load_parameters_from_yaml open_file safe_load p = Inr d
     \<longleftrightarrow> load_parameters_body open_file safe_load p = Inr d"
  by (auto simp: load_parameters_from_yaml_def split: sum.splits py_error.splits)

lemma required_keys_Cons: "\<exists>k ks. required_keys = k # ks"
  by (simp add: required_keys_def)

lemma body_dict:
  assumes "open_file p = Inr content" and "safe_load content = Inr (YDict items)"
  shows "load_parameters_body open_file safe_load p =
     (if filter (\<lambda>k. YStr k \<notin> fst ` set items) required_keys \<noteq> []
      then Inl (ValueError (''Missing required parameters in YAML file: ''
                 @ join_comma (filter (\<lambda>k. YStr k \<notin> fst ` set items) required_keys)))
      else select_keys (YDict items) required_keys)"
  using assms by (simp add: load_parameters_body_def missing_keys_dict)

lemma body_Inr_iff:
  "(\<exists>d. load_parameters_body open_file safe_load p = Inr d) \<longleftrightarrow>
   (\<exists>content items. open_file p = Inr content \<and> safe_load content = Inr (YDict items)
       \<and> (\<forall>k\<in>set required_keys. YStr k \<in> fst ` set items))"
proof
  assume "\<exists>d. load_parameters_body open_file safe_load p = Inr d"
  then obtain d where d: "load_parameters_body open_file safe_load p = Inr d" ..
  from d obtain content where t: "open_file p = Inr content"
    by (cases "open_file p") (simp_all add: load_parameters_body_def)
  from d t obtain params where ps: "safe_load content = Inr params"
    by (cases "safe_load content") (simp_all add: load_parameters_body_def)
  from d t ps obtain missing where ms: "missing_keys params required_keys = Inr missing"
    by (cases "missing_keys params required_keys") (simp_all add: load_parameters_body_def)
  from d t ps ms have m0: "missing = []" and sel: "select_keys params required_keys = Inr d"
    by (simp_all add: load_parameters_body_def split: if_splits)
  from required_keys_Cons obtain k ks where rk: "required_keys = k # ks" by blast
  from sel rk obtain items where it: "params = YDict items"
    using select_keys_Inr_dict by metis
  from ms m0 it have "filter (\<lambda>k. YStr k \<notin> fst ` set items) required_keys = []"
    by (simp add: missing_keys_dict)
  then have "\<forall>k\<in>set required_keys. YStr k \<in> fst ` set items"
    by (simp add: filter_empty_conv)
  with t ps it show "\<exists>content items. open_file p = Inr content \<and> safe_load content = Inr (YDict items)
       \<and> (\<forall>k\<in>set required_keys. YStr k \<in> fst ` set items)"
    by blast
next
  assume "\<exists>content items. open_file p = Inr content \<and> safe_load content = Inr (YDict items)
       \<and> (\<forall>k\<in>set required_keys. YStr k \<in> fst ` set items)"
  then obtain content items where t: "open_file p = Inr content"
    and ps: "safe_load content = Inr (YDict items)"
    and all: "\<forall>k\<in>set required_keys. YStr k \<in> fst ` set items"
    by blast
  from all have "filter (\<lambda>k. YStr k \<notin> fst ` set items) required_keys = []"
    by (simp add: filter_empty_conv)
  with body_dict [of open_file p content safe_load items, OF t ps] select_keys_dict [OF all]
  show "\<exists>d. load_parameters_body open_file safe_load p = Inr d"
    by auto
qed

subsection \<open>The report of missing transformations\<close>

lemma set_dropna: "set (dropna cs) = {x. Some x \<in> set cs}"
  by (induction cs) (auto simp: dropna_def List.map_filter_simps split: option.splits)

lemma experiment_tokens:
  "set (concat (map split_pipe (dropna (map transformation_specification attributes_df)))) =
     {t. \<exists>r\<in>set attributes_df. \<exists>s. transformation_specification r = Some s
            \<and> t \<in> set (split_pipe s)}"
proof -
  have "Some s \<in> transformation_specification ` set attributes_df
          \<longleftrightarrow> (\<exists>r\<in>set attributes_df. transformation_specification r = Some s)" for s
    unfolding image_iff by (metis)
  then show ?thesis
    by (auto simp: set_dropna)
qed

lemma distinct_set_singleton:
  assumes "distinct xs" and "set xs = {x}"
  shows "xs = [x]"
proof (cases xs)
  case Nil
  with assms(2) show ?thesis by simp
next
  case (Cons a as)
  from assms(2) Cons have ax: "a = x"
    by (metis list.set_intros(1) singletonD)
  have "as = []"
  proof (cases as)
    case Nil
    then show ?thesis .
  next
    case (Cons b bs)
    then have "b \<in> set xs"
      using \<open>xs = a # as\<close> by simp
    with assms(2) have "b = x" by simp
    with assms(1) \<open>xs = a # as\<close> Cons ax show ?thesis by simp
  qed
  with Cons ax show ?thesis by simp
qed

text \<open>The two outcomes of the function, with the list it reports, and the list of the
  example: the specifications \<open>A|B\<close>, \<open>C\<close> and a null one against the codes \<open>A\<close>, \<open>C\<close>.\<close>

lemma check_missing_transformations_cases:
  "\<exists>missing. sorted missing \<and> distinct missing
      \<and> set missing =
           {t. \<exists>r\<in>set attributes_df. \<exists>s. transformation_specification r = Some s
                  \<and> t \<in> set (split_pipe s)}
           - transformation_code ` set transformation_cost_definitions
      \<and> check_missing_transformations to_csv attributes_df transformation_cost_definitions =
          (if missing \<noteq> []
           then (case to_csv ''debug/missing_transformations_report.csv''
                        ''missing_transformations'' missing of
                   Inl e \<Rightarrow> ([PrintMissing missing], Inl e)
                 | Inr written \<Rightarrow>
                     ([PrintMissing missing,
                       WriteCsv ''debug/missing_transformations_report.csv''
                         ''missing_transformations'' missing,
                       PrintReportSaved ''debug/missing_transformations_report.csv''], Inr ()))
           else ([PrintNoMissing], Inr ()))"
proof -
  let ?E = "set (concat (map split_pipe (dropna (map transformation_specification attributes_df))))"
  let ?K = "set (map transformation_code transformation_cost_definitions)"
  let ?m = "sorted_list_of_set (?E - ?K)"
  have fin: "finite (?E - ?K)" by simp
  have s: "sorted ?m" and d: "distinct ?m" and st: "set ?m = ?E - ?K"
    using fin by simp_all
  have st': "set ?m = {t. \<exists>r\<in>set attributes_df. \<exists>s. transformation_specification r = Some s
                  \<and> t \<in> set (split_pipe s)}
           - transformation_code ` set transformation_cost_definitions"
    using st by (simp only: experiment_tokens set_map)
  have c: "check_missing_transformations to_csv attributes_df transformation_cost_definitions =
          (if ?m \<noteq> []
           then (case to_csv ''debug/missing_transformations_report.csv''
                        ''missing_transformations'' ?m of
                   Inl e \<Rightarrow> ([PrintMissing ?m], Inl e)
                 | Inr written \<Rightarrow>
                     ([PrintMissing ?m,
                       WriteCsv ''debug/missing_transformations_report.csv''
                         ''missing_transformations'' ?m,
                       PrintReportSaved ''debug/missing_transformations_report.csv''], Inr ()))
           else ([PrintNoMissing], Inr ()))"
    by (simp only: check_missing_transformations_def Let_def report_path_def)
  from s d st' c show ?thesis by blast
qed

lemma example_missing:
  assumes "distinct missing"
    and "set missing =
      {t. \<exists>r\<in>set [\<lparr>strategy_code = ''S1'', transformation_specification = Some ''A|B''\<rparr>,
                    \<lparr>strategy_code = ''S2'', transformation_specification = Some ''C''\<rparr>,
                    \<lparr>strategy_code = ''S3'', transformation_specification = None\<rparr>].
            \<exists>s. transformation_specification r = Some s \<and> t \<in> set (split_pipe s)}
      - transformation_code ` set [\<lparr>transformation_code = ''A''\<rparr>, \<lparr>transformation_code = ''C''\<rparr>]"
  shows "missing = [''B'']"
proof -
  have "{t. \<exists>r\<in>set [\<lparr>strategy_code = ''S1'', transformation_specification = Some ''A|B''\<rparr>,
                    \<lparr>strategy_code = ''S2'', transformation_specification = Some ''C''\<rparr>,
                    \<lparr>strategy_code = ''S3'', transformation_specification = None\<rparr>].
            \<exists>s. transformation_specification r = Some s \<and> t \<in> set (split_pipe s)}
      - transformation_code ` set [\<lparr>transformation_code = ''A''\<rparr>, \<lparr>transformation_code = ''C''\<rparr>]
      = {''B''}"
    by (simp add: set_eq_iff) blast
  with assms(2) have "set missing = {''B''}" by simp
  with assms(1) show ?thesis
    by (rule distinct_set_singleton)
qed

subsection \<open>Tables as objects\<close>

lemma remove_suffix_heap_frame:
  "(\<forall>b<next_free h. cells (snd (remove_suffix_from_transformations_heap h a)) b = cells h b)
   \<and> (case fst (remove_suffix_from_transformations_heap h a) of
         Inr df \<Rightarrow> next_free h \<le> df
           \<and> remove_suffix_from_transformations (cells h a)
               = Inr (cells (snd (remove_suffix_from_transformations_heap h a)) df)
       | Inl e \<Rightarrow> remove_suffix_from_transformations (cells h a) = Inl e)"
  by (simp add: remove_suffix_from_transformations_heap_def remove_suffix_from_transformations_def
      heap_copy_def heap_new_def heap_set_def split: sum.splits)

lemma corrective_rules_heap_eq:
  "corrective_rules_heap h df = heap_set h df (corrective_rules (cells h df))"
  by (simp add: corrective_rules_heap_def corrective_rules_def Let_def heap_set_def)

lemma shift_early_costs_heap_eq:
  "shift_early_costs_heap tx t0 h df =
     (Suc (Suc (next_free h)),
      h\<lparr>cells := (cells h)
           (next_free h := cells h df,
            Suc (next_free h) :=
              map (\<lambda>r. r\<lparr>time_period := time_period r + tx\<rparr>)
                (map (\<lambda>r. r\<lparr>variable := variable r @ ''_shifted'' @ str_int (time_period r + t0)\<rparr>)
                   (filter (\<lambda>r. time_period r < tx) (cells h df))),
            Suc (Suc (next_free h)) := shift_early_costs tx t0 (cells h df)),
        next_free := Suc (Suc (Suc (next_free h)))\<rparr>)"
  if "df < next_free h"
  using that
  by (simp add: shift_early_costs_heap_def shift_early_costs_def Let_def heap_copy_def
      heap_new_def heap_set_def fun_upd_twist)

lemma postprocessing_heap_frame:
  "(\<forall>b<next_free h. cells (snd (perform_postprocessing_heap tx t0 h a)) b = cells h b)
   \<and> next_free h \<le> fst (perform_postprocessing_heap tx t0 h a)
   \<and> cells (snd (perform_postprocessing_heap tx t0 h a)) (fst (perform_postprocessing_heap tx t0 h a))
       = perform_postprocessing tx t0 (cells h a)"
proof -
  define n where "n = next_free h"
  define h1 where "h1 = corrective_rules_heap (snd (heap_copy h a)) n"
  have c: "heap_copy h a = (n, snd (heap_copy h a))"
    by (simp add: heap_copy_def heap_new_def n_def)
  have nf: "next_free h1 = Suc n"
    by (simp add: h1_def corrective_rules_heap_eq heap_set_def heap_copy_def heap_new_def n_def)
  have cn: "cells h1 n = corrective_rules (cells h a)"
    by (simp add: h1_def corrective_rules_heap_eq heap_set_def heap_copy_def heap_new_def n_def)
  have old: "cells h1 b = cells h b" if "b < n" for b
    using that
    by (simp add: h1_def corrective_rules_heap_eq heap_set_def heap_copy_def heap_new_def n_def)
  have lt: "n < next_free h1" by (simp add: nf)
  have pp: "perform_postprocessing_heap tx t0 h a = shift_early_costs_heap tx t0 h1 n"
    unfolding perform_postprocessing_heap_def h1_def by (subst c) simp
  show ?thesis
    unfolding pp shift_early_costs_heap_eq [OF lt] n_def [symmetric]
    by (simp add: nf cn old perform_postprocessing_def)
qed

lemma tlu_heap_frame:
  "(\<forall>b<next_free h.
       cells (snd (add_total_tlu_calculation_heap pd ids h df tlu_conversions_df cols_to_keep)) b
       = cells h b)
   \<and> (case fst (add_total_tlu_calculation_heap pd ids h df tlu_conversions_df cols_to_keep) of
         Inr r \<Rightarrow> next_free h \<le> r
       | Inl e \<Rightarrow> True)"
  by (simp add: add_total_tlu_calculation_heap_def heap_copy_def heap_new_def heap_set_def
      Let_def split: sum.splits)


subsection \<open>The strategy matrix\<close>

text \<open>
  Where no known code is spelled \<open>strategy_code\<close> no assignment raises, and the loops act
  cell by cell: after them the cell of a strategy and a code is 1 exactly if the first
  row of the attribute table with that strategy has a specification with that token.
  Where the rows of a strategy all carry the same specification, the first of them
  stands for any of them.
\<close>

lemma zip_map_same_right: "zip xs (map f xs) = map (\<lambda>x. (x, f x)) xs"
  using zip_map_map_same [of "\<lambda>x. x" xs f] by simp

lemma loc_set_indicator_rows:
  assumes "''strategy_code'' \<notin> set cols"
  shows "loc_set_indicator cols code t
     (map (\<lambda>s. \<lparr>strategy_code = s, indicator = map (f s) cols\<rparr>) strategies)
   = Inr (map (\<lambda>s. \<lparr>strategy_code = s,
               indicator = map (\<lambda>c. if s = code \<and> c = t then IntCell 1 else f s c) cols\<rparr>)
            strategies)"
  using assms by (simp add: loc_set_indicator_def zip_map_same_right comp_def)

lemma mark_transformations_rows:
  assumes "''strategy_code'' \<notin> set cols"
  shows "mark_transformations cols code ts
     (map (\<lambda>s. \<lparr>strategy_code = s, indicator = map (f s) cols\<rparr>) strategies)
   = Inr (map (\<lambda>s. \<lparr>strategy_code = s,
               indicator = map (\<lambda>c. if s = code \<and> c \<in> set ts then IntCell 1 else f s c) cols\<rparr>)
       strategies)"
proof (induction ts arbitrary: f)
  case Nil
  then show ?case by simp
next
  case (Cons t ts)
  show ?case
  proof (cases "t \<in> set cols")
    case True
    then show ?thesis
      by (auto simp: loc_set_indicator_rows [OF assms] Cons.IH)
  next
    case False
    then have "map (\<lambda>c. if s = code \<and> c \<in> set (t # ts) then IntCell 1 else f s c) cols
             = map (\<lambda>c. if s = code \<and> c \<in> set ts then IntCell 1 else f s c) cols" for s
      by (intro map_cong [OF refl]) auto
    with False show ?thesis
      by (simp add: Cons.IH)
  qed
qed

lemma find_filter_eq:
  "List.find P xs = (case filter P xs of [] \<Rightarrow> None | x # ys \<Rightarrow> Some x)"
  by (induction xs) simp_all

lemma populate_strategies_rows:
  assumes "''strategy_code'' \<notin> set cols"
  shows "populate_strategies cols attr_data_df codes
     (map (\<lambda>s. \<lparr>strategy_code = s, indicator = map (f s) cols\<rparr>) strategies)
   = Inr (map (\<lambda>s. \<lparr>strategy_code = s,
               indicator =
                 map (\<lambda>c. if s \<in> set codes
                          \<and> (case List.find (\<lambda>r. strategy_code r = s) attr_data_df of
                                None \<Rightarrow> False
                              | Some r \<Rightarrow>
                                  (case transformation_specification r of
                                     None \<Rightarrow> False
                                   | Some transformations \<Rightarrow>
                                       c \<in> set (split_pipe transformations)))
                        then IntCell 1 else f s c) cols\<rparr>)
       strategies)"
proof (induction codes arbitrary: f)
  case Nil
  then show ?case by simp
next
  case (Cons code codes)
  show ?case
    by (auto simp: find_filter_eq mark_transformations_rows [OF assms] Cons.IH
        split: list.splits option.splits)
qed

lemma initial_matrix_rows:
  assumes "''strategy_code'' \<notin> set cols"
  shows "initial_matrix cols strategies
    = map (\<lambda>s. \<lparr>strategy_code = s, indicator = map ((\<lambda>s c. IntCell 0) s) cols\<rparr>) strategies"
proof -
  have "map (\<lambda>c. if c = ''strategy_code'' then StrCell s else IntCell 0) cols
      = map (\<lambda>c. IntCell 0) cols" for s
    using assms by (intro map_cong [OF refl]) auto
  then show ?thesis
    by (simp add: initial_matrix_def)
qed

lemma fetch_success:
  assumes "read_csv (raw_github_url url) = Inr transformer_df" and "transformer_df \<noteq> []"
  shows "fetch_csv_from_github read_csv url
           = ([PrintFetched (raw_github_url url)], Inr (Some transformer_df))"
  using assms by (simp add: fetch_csv_from_github_def)

lemma find_consistent_key:
  assumes "\<forall>r\<in>set attr_data_df. \<forall>r'\<in>set attr_data_df.
     strategy_code r = strategy_code r'
       \<longrightarrow> transformation_specification r = transformation_specification r'"
  shows "(\<exists>r\<in>set attr_data_df. strategy_code r = s \<and> Q (transformation_specification r))
         \<longleftrightarrow> (case List.find (\<lambda>r. strategy_code r = s) attr_data_df of
                None \<Rightarrow> False | Some r \<Rightarrow> Q (transformation_specification r))"
proof (cases "List.find (\<lambda>r. strategy_code r = s) attr_data_df")
  case None
  then have "\<forall>r\<in>set attr_data_df. strategy_code r \<noteq> s"
    by (simp add: find_None_iff)
  with None show ?thesis by auto
next
  case (Some r0)
  then have r0: "r0 \<in> set attr_data_df" "strategy_code r0 = s"
    by (auto simp: find_Some_iff)
  have "transformation_specification r = transformation_specification r0"
    if "r \<in> set attr_data_df" "strategy_code r = s" for r
    using bspec [OF bspec [OF assms that(1)] r0(1)] that(2) r0(2) by simp
  then have "(\<exists>r\<in>set attr_data_df. strategy_code r = s \<and> Q (transformation_specification r))
     \<longleftrightarrow> Q (transformation_specification r0)"
    using r0 by metis
  with Some show ?thesis by simp
qed

lemma build_first_row:
  assumes fetched: "read_csv (raw_github_url url) = Inr transformer_df"
    and nonempty: "transformer_df \<noteq> []"
    and label: "''strategy_code'' \<notin> set (get_default_transformation_codes transformer_df)"
  shows
  "build_attribute_strategy_code read_csv url strategies_list attr_data_df =
     ([PrintFetched (raw_github_url url)],
      Inr (get_default_transformation_codes transformer_df,
           map (\<lambda>s. \<lparr>strategy_code = s,
                       indicator =
                         map (\<lambda>c. IntCell
                                (if (case List.find (\<lambda>r. strategy_code r = s) attr_data_df of
                                        None \<Rightarrow> False
                                      | Some r \<Rightarrow>
                                          (case transformation_specification r of
                                             None \<Rightarrow> False
                                           | Some transformations \<Rightarrow>
                                               c \<in> set (split_pipe transformations)))
                                  then 1 else 0))
                           (get_default_transformation_codes transformer_df)\<rparr>)
             strategies_list))"
proof -
  let ?cols = "get_default_transformation_codes transformer_df"
  have "populate_strategies ?cols attr_data_df strategies_list
          (initial_matrix ?cols strategies_list)
        = Inr (map (\<lambda>s. \<lparr>strategy_code = s,
                       indicator =
                         map (\<lambda>c. IntCell
                                (if (case List.find (\<lambda>r. strategy_code r = s) attr_data_df of
                                        None \<Rightarrow> False
                                      | Some r \<Rightarrow>
                                          (case transformation_specification r of
                                             None \<Rightarrow> False
                                           | Some transformations \<Rightarrow>
                                               c \<in> set (split_pipe transformations)))
                                  then 1 else 0)) ?cols\<rparr>)
             strategies_list)"
    unfolding initial_matrix_rows [OF label] populate_strategies_rows [OF label] sum.inject
    by (intro map_cong [OF refl]) (simp add: if_distrib [of IntCell])
  then show ?thesis
    by (simp add: build_attribute_strategy_code_def
        fetch_success [of read_csv url transformer_df, OF fetched nonempty] Let_def)
qed

subsection \<open>Splitting, joining and the suffix pattern\<close>

lemma split_pipe_not_Nil: "split_pipe s \<noteq> []"
  by (induction s) (auto split: list.splits)

lemma split_pipe_no_pipe: "t \<in> set (split_pipe s) \<Longrightarrow> CHR ''|'' \<notin> set t"
  by (induction s arbitrary: t) (auto split: list.splits if_splits)

lemma split_pipe_chars_all: "\<forall>t\<in>set (split_pipe s). \<forall>x\<in>set t. x \<in> set s"
  by (induction s) (auto split: list.splits)

lemma split_pipe_chars: "t \<in> set (split_pipe s) \<Longrightarrow> set t \<subseteq> set s"
  using split_pipe_chars_all [of s] by (meson subsetI)

lemma join_split_pipe: "join_pipe (split_pipe s) = s"
proof (induction s)
  case Nil
  then show ?case by simp
next
  case (Cons c cs)
  obtain t ts where ts: "split_pipe cs = t # ts"
    using split_pipe_not_Nil [of cs] by (cases "split_pipe cs") auto
  with Cons show ?case
    by (cases ts) auto
qed

lemma split_join_pipe:
  assumes "ts \<noteq> []" and "\<forall>t\<in>set ts. CHR ''|'' \<notin> set t"
  shows "split_pipe (join_pipe ts) = ts"
  using assms
proof (induction ts rule: join_pipe.induct)
  case 1
  then show ?case by simp
next
  case (2 t)
  then have "CHR ''|'' \<notin> set t" by simp
  then have "split_pipe t = [t]"
    by (induction t) auto
  then show ?case by simp
next
  case (3 t u ts)
  then have ih: "split_pipe (join_pipe (u # ts)) = u # ts" by simp
  from 3 have "CHR ''|'' \<notin> set t" by simp
  then have "split_pipe (t @ CHR ''|'' # r) = t # split_pipe r" for r
    by (induction t) (auto split: list.splits)
  with ih show ?case by simp
qed

lemma join_pipe_chars: "set (join_pipe ts) \<subseteq> \<Union> (set ` set ts) \<union> {CHR ''|''}"
  by (induction ts rule: join_pipe.induct) auto

lemma match_here_drop: "match_here sufs s = Some rest \<Longrightarrow> \<exists>k. rest = drop k s"
  by (induction sufs) (auto split: if_splits)

lemma match_here_no_newline:
  assumes "CHR 0x0A \<notin> set s"
  shows "match_here sufs s = (if s \<in> set sufs then Some [] else None)"
proof (induction sufs)
  case Nil
  then show ?case by simp
next
  case (Cons suf sufs)
  have nl: "drop (length suf) s \<noteq> [CHR 0x0A]"
  proof
    assume "drop (length suf) s = [CHR 0x0A]"
    then have "CHR 0x0A \<in> set (drop (length suf) s)" by simp
    then have "CHR 0x0A \<in> set s" by (rule in_set_dropD)
    with assms show False by simp
  qed
  have "prefix suf s \<and> drop (length suf) s = [] \<longleftrightarrow> s = suf"
    by (auto simp: prefix_def)
  with nl Cons show ?case
    by (auto simp: at_end_def)
qed

lemma suffixes_nonempty: "[] \<notin> set suffixes_to_remove"
  by (simp add: suffixes_to_remove_def)

lemma re_sub_suffix_chars: "set (re_sub_suffix t) \<subseteq> set t"
proof (induction t rule: re_sub_suffix.induct)
  case 1
  then show ?case by simp
next
  case (2 c cs)
  show ?case
  proof (cases "match_here suffixes_to_remove (c # cs)")
    case None
    with 2 show ?thesis by auto
  next
    case (Some rest)
    then obtain k where "rest = drop k (c # cs)"
      using match_here_drop by blast
    then have "set rest \<subseteq> set (c # cs)"
      by (simp only: set_drop_subset)
    moreover from 2(2) [OF Some] have "set (re_sub_suffix rest) \<subseteq> set rest" .
    ultimately show ?thesis
      using Some by simp
  qed
qed

lemma re_sub_suffix_fixed:
  assumes "CHR 0x0A \<notin> set t"
  shows "re_sub_suffix t = t \<longleftrightarrow> \<not> (\<exists>suf\<in>set suffixes_to_remove. suffix suf t)"
  using assms
proof (induction t)
  case Nil
  then show ?case
    using suffixes_nonempty by auto
next
  case (Cons c cs)
  then have ih: "re_sub_suffix cs = cs \<longleftrightarrow> \<not> (\<exists>suf\<in>set suffixes_to_remove. suffix suf cs)"
    by simp
  have m: "match_here suffixes_to_remove (c # cs)
             = (if c # cs \<in> set suffixes_to_remove then Some [] else None)"
    using Cons.prems by (rule match_here_no_newline)
  have sc: "(\<exists>suf\<in>set suffixes_to_remove. suffix suf (c # cs))
        \<longleftrightarrow> c # cs \<in> set suffixes_to_remove \<or> (\<exists>suf\<in>set suffixes_to_remove. suffix suf cs)"
    by (auto simp: suffix_Cons)
  show ?case
  proof (cases "c # cs \<in> set suffixes_to_remove")
    case True
    with m sc show ?thesis by simp
  next
    case False
    with m sc ih show ?thesis by simp
  qed
qed

lemma re_sub_suffix_no_pipe: "CHR ''|'' \<notin> set t \<Longrightarrow> CHR ''|'' \<notin> set (re_sub_suffix t)"
  using re_sub_suffix_chars [of t] by (meson subsetD)

lemma clean_fixed:
  "clean_transformation_specification s = s
     \<longleftrightarrow> (\<forall>tok\<in>set (split_pipe s). re_sub_suffix tok = tok)"
proof
  assume "\<forall>tok\<in>set (split_pipe s). re_sub_suffix tok = tok"
  then have "map re_sub_suffix (split_pipe s) = split_pipe s"
    by (simp add: map_idI)
  then show "clean_transformation_specification s = s"
    by (simp add: clean_transformation_specification_def join_split_pipe)
next
  assume eq: "clean_transformation_specification s = s"
  let ?ts = "split_pipe s"
  have ne: "map re_sub_suffix ?ts \<noteq> []"
    by (simp add: split_pipe_not_Nil)
  have np: "\<forall>t\<in>set (map re_sub_suffix ?ts). CHR ''|'' \<notin> set t"
    using split_pipe_no_pipe re_sub_suffix_no_pipe by auto
  have "map re_sub_suffix ?ts = split_pipe (join_pipe (map re_sub_suffix ?ts))"
    using split_join_pipe [OF ne np] by simp
  also have "\<dots> = split_pipe s"
    using eq by (simp add: clean_transformation_specification_def)
  finally have "map re_sub_suffix ?ts = map (\<lambda>t. t) ?ts" by simp
  then show "\<forall>tok\<in>set (split_pipe s). re_sub_suffix tok = tok"
    by (simp only: map_eq_conv)
qed

lemma clean_no_newline:
  assumes "CHR 0x0A \<notin> set s"
  shows "CHR 0x0A \<notin> set (clean_transformation_specification s)"
proof
  assume "CHR 0x0A \<in> set (clean_transformation_specification s)"
  then have "CHR 0x0A \<in> \<Union> (set ` set (map re_sub_suffix (split_pipe s))) \<union> {CHR ''|''}"
    unfolding clean_transformation_specification_def
    using join_pipe_chars by (meson subsetD)
  then obtain tok where tok: "tok \<in> set (split_pipe s)" and "CHR 0x0A \<in> set (re_sub_suffix tok)"
    by auto
  then have "CHR 0x0A \<in> set tok"
    using re_sub_suffix_chars by (meson subsetD)
  with tok have "CHR 0x0A \<in> set s"
    using split_pipe_chars by (meson subsetD)
  with assms show False by simp
qed

lemma apply_clean_all_some:
  assumes "\<forall>r\<in>set df. transformation_specification r \<noteq> None"
  shows "apply_clean df =
     Inr (map (\<lambda>r. r\<lparr>transformation_specification :=
                        map_option clean_transformation_specification
                          (transformation_specification r)\<rparr>) df)"
  using assms by (induction df) (auto split: option.splits)

lemma update_spec_fixed:
  "r\<lparr>transformation_specification := v\<rparr> = r \<longleftrightarrow> v = transformation_specification r"
proof
  assume "r\<lparr>transformation_specification := v\<rparr> = r"
  then have "transformation_specification (r\<lparr>transformation_specification := v\<rparr>)
               = transformation_specification r"
    by (rule arg_cong)
  then show "v = transformation_specification r" by simp
next
  assume "v = transformation_specification r"
  then show "r\<lparr>transformation_specification := v\<rparr> = r" by simp
qed


section \<open>Properties\<close>

subsection \<open>fetch_csv_from_github: the empty table\<close>

text \<open>
  C3. The claim: when the fetched content parses to an empty table, the function fails
  with a \<open>ValueError\<close> that reaches the caller, and only a fetch or parse error gives the
  null result. The docstring of the function says the same (\<open>Raises: ValueError: If the
  DataFrame is empty\<close>). The code does otherwise: the \<open>raise\<close> stands inside the \<open>try\<close>
  block whose \<open>except Exception\<close> catches it, so for a URL whose content is an empty table
  the function prints the error message and returns \<open>None\<close>, as for a failed fetch.
\<close>

theorem fetch_csv_from_github_empty_returns_none:
  "fetch_csv_from_github (\<lambda>u. Inr ([] :: transformer_row list))
       ''https://github.com/o/r/blob/main/t.csv''
   = ([PrintFetchError ''https://raw.githubusercontent.com/o/r/main/t.csv''
         (ValueError
            ''The CSV file fetched from https://raw.githubusercontent.com/o/r/main/t.csv is empty.'')],
      Inr None)"
  by (simp add: fetch_csv_from_github_def raw_github_url_def)

subsection \<open>remove_suffix_from_transformations: a suffix before a final newline\<close>

text \<open>
  C5. The claim: a suffix is removed only where it ends the token, and a token that ends
  in no listed suffix is unchanged; the comment in the source says the pattern matches
  the suffixes at the end. The token \<open>TX:A_LOW\<close> followed by a newline ends in a newline,
  not in a suffix, yet \<open>$\<close> also matches before a final newline and the code removes
  \<open>_LOW\<close> from the middle of it.
\<close>

theorem remove_suffix_before_final_newline:
  "remove_suffix_from_transformations
     [\<lparr>strategy_code = ''S'',
       transformation_specification = Some (''TX:A_LOW'' @ [CHR 0x0A])\<rparr>]
   = Inr [\<lparr>strategy_code = ''S'',
           transformation_specification = Some (''TX:A'' @ [CHR 0x0A])\<rparr>]"
  by (simp add: remove_suffix_from_transformations_def clean_transformation_specification_def
      suffixes_to_remove_def at_end_def)

subsection \<open>get_default_transformation_codes: \<open>TFR:\<close> inside a code\<close>

text \<open>
  C9. The claim, and the docstring of the function: the \<open>TFR\<close> prefix is replaced by
  \<open>TX\<close>, and a code is otherwise unmodified. \<open>str.replace\<close> rewrites every occurrence:
  the code \<open>X_TFR:B\<close> does not start with \<open>TFR:\<close> and is changed all the same. The
  second equation is the other place where the code does less than the words say:
  \<open>list.remove\<close> deletes one \<open>TFR:BASE\<close> entry, and a second one stays in the list as
  \<open>TX:BASE\<close>.
\<close>

theorem get_default_transformation_codes_rewrites_inner_occurrence:
  "get_default_transformation_codes
     [\<lparr>transformer_code = ''TFR:A''\<rparr>, \<lparr>transformer_code = ''X_TFR:B''\<rparr>]
   = [''TX:A'', ''X_TX:B'']
   \<and> get_default_transformation_codes
     [\<lparr>transformer_code = ''TFR:BASE''\<rparr>, \<lparr>transformer_code = ''TFR:BASE''\<rparr>]
   = [''TX:BASE'']"
  by (simp add: get_default_transformation_codes_def)

subsection \<open>perform_postprocessing: the three corrective rules\<close>

text \<open>
  C1. The statements before the time shift act row by row and in this order: the value
  becomes 0 where the strategy is \<open>PFLO:BETTER_BASE\<close> or \<open>PFLO:SUPPLY_SIDE_TECH\<close> and the
  variable contains \<open>congestion\<close> or \<open>road_safety\<close>; then it is multiplied by 0.5, in
  float64 arithmetic, where the strategy is \<open>PFLO:ALL_PLUR\<close> or
  \<open>PFLO:ALL_NO_STOPPING_DEFORESTATION_PLUR\<close> and the variable passes the same test; then
  it becomes 0 where the strategy is \<open>PFLO:SUPPLY_SIDE_TECH\<close> and the variable contains
  \<open>cb:waso:technical_cost:waste_management\<close>. The test \<open>any_in ks x\<close> holds exactly where
  some keyword of \<open>ks\<close> occurs in \<open>x\<close> as a contiguous substring. A row whose time period
  is not below \<open>tx_start\<close> leaves \<open>perform_postprocessing\<close> as these rules left it; a row
  that matches none of the three conditions is unchanged by them. The row
  \<open>PFLO:BETTER_BASE\<close>, \<open>congestion_benefit\<close>, 100.0 ends with the value 0.0 and the same
  row under \<open>PFLO:ALL_PLUR\<close> with 50.0, the float64 numbers that stand for 100 and 50;
  rows of the three strategies whose variable is \<open>fuel_cost\<close> keep the value 100.0. The
  product with 0.5 is the exact half of a finite value, except at the least exponent with
  an odd significand, where it is rounded: the least positive float64 becomes 0.0.
  \<open>NaN\<close> and the infinities stay what they are.
\<close>

theorem perform_postprocessing_corrective_rules:
  fixes df :: "'a result_row_scheme list"
  shows
  "corrective_rules df =
     map (\<lambda>r. if strategy_code r = ''PFLO:SUPPLY_SIDE_TECH''
                 \<and> any_in [''cb:waso:technical_cost:waste_management''] (variable r)
              then r\<lparr>val := 0\<rparr> else r)
       (map (\<lambda>r. if (strategy_code r = ''PFLO:ALL_PLUR''
                      \<or> strategy_code r = ''PFLO:ALL_NO_STOPPING_DEFORESTATION_PLUR'')
                    \<and> any_in [''congestion'', ''road_safety''] (variable r)
                 then r\<lparr>val := times_half (val r)\<rparr> else r)
          (map (\<lambda>r. if (strategy_code r = ''PFLO:BETTER_BASE''
                         \<or> strategy_code r = ''PFLO:SUPPLY_SIDE_TECH'')
                       \<and> any_in [''congestion'', ''road_safety''] (variable r)
                    then r\<lparr>val := 0\<rparr> else r)
             df))
   \<and> (\<forall>ks x. any_in ks x \<longleftrightarrow> (\<exists>k\<in>set ks. \<exists>ps ss. x = ps @ k @ ss))
   \<and> (\<forall>i<length df. tx_start \<le> time_period (df ! i) \<longrightarrow>
         perform_postprocessing tx_start time_period_0 df ! i = corrective_rules df ! i)
   \<and> (\<forall>i<length df.
         \<not> ((strategy_code (df ! i) = ''PFLO:BETTER_BASE''
              \<or> strategy_code (df ! i) = ''PFLO:SUPPLY_SIDE_TECH'')
             \<and> any_in [''congestion'', ''road_safety''] (variable (df ! i))) \<longrightarrow>
         \<not> ((strategy_code (df ! i) = ''PFLO:ALL_PLUR''
              \<or> strategy_code (df ! i) = ''PFLO:ALL_NO_STOPPING_DEFORESTATION_PLUR'')
             \<and> any_in [''congestion'', ''road_safety''] (variable (df ! i))) \<longrightarrow>
         \<not> (strategy_code (df ! i) = ''PFLO:SUPPLY_SIDE_TECH''
             \<and> any_in [''cb:waso:technical_cost:waste_management''] (variable (df ! i))) \<longrightarrow>
         corrective_rules df ! i = df ! i)
   \<and> (tx_start \<le> t \<longrightarrow>
         perform_postprocessing tx_start time_period_0
            [\<lparr>strategy_code = ''PFLO:BETTER_BASE'', variable = ''congestion_benefit'',
              time_period = t, val = Finite64 False 7036874417766400 (- 46)\<rparr>]
          = [\<lparr>strategy_code = ''PFLO:BETTER_BASE'', variable = ''congestion_benefit'',
              time_period = t, val = 0\<rparr>])
   \<and> (tx_start \<le> t \<longrightarrow>
         perform_postprocessing tx_start time_period_0
            [\<lparr>strategy_code = ''PFLO:ALL_PLUR'', variable = ''congestion_benefit'',
              time_period = t, val = Finite64 False 7036874417766400 (- 46)\<rparr>]
          = [\<lparr>strategy_code = ''PFLO:ALL_PLUR'', variable = ''congestion_benefit'',
              time_period = t, val = Finite64 False 7036874417766400 (- 47)\<rparr>])
   \<and> float64_real (Finite64 False 7036874417766400 (- 46)) = Some 100
   \<and> float64_real (Finite64 False 7036874417766400 (- 47)) = Some 50
   \<and> float64_real 0 = Some 0
   \<and> (tx_start \<le> t \<longrightarrow>
         perform_postprocessing tx_start time_period_0
            [\<lparr>strategy_code = ''PFLO:BETTER_BASE'', variable = ''fuel_cost'',
              time_period = t, val = Finite64 False 7036874417766400 (- 46)\<rparr>,
             \<lparr>strategy_code = ''PFLO:ALL_PLUR'', variable = ''fuel_cost'',
              time_period = t, val = Finite64 False 7036874417766400 (- 46)\<rparr>,
             \<lparr>strategy_code = ''PFLO:SUPPLY_SIDE_TECH'', variable = ''fuel_cost'',
              time_period = t, val = Finite64 False 7036874417766400 (- 46)\<rparr>]
          = [\<lparr>strategy_code = ''PFLO:BETTER_BASE'', variable = ''fuel_cost'',
              time_period = t, val = Finite64 False 7036874417766400 (- 46)\<rparr>,
             \<lparr>strategy_code = ''PFLO:ALL_PLUR'', variable = ''fuel_cost'',
              time_period = t, val = Finite64 False 7036874417766400 (- 46)\<rparr>,
             \<lparr>strategy_code = ''PFLO:SUPPLY_SIDE_TECH'', variable = ''fuel_cost'',
              time_period = t, val = Finite64 False 7036874417766400 (- 46)\<rparr>])
   \<and> (\<forall>s m e. - 1074 < e \<or> e = - 1074 \<and> even m \<longrightarrow>
         float64_real (times_half (Finite64 s m e))
           = Some ((if s then - 1 else 1) * real m * 2 powi e * 0.5))
   \<and> (tx_start \<le> t \<longrightarrow>
         perform_postprocessing tx_start time_period_0
            [\<lparr>strategy_code = ''PFLO:ALL_PLUR'', variable = ''congestion_benefit'',
              time_period = t, val = Finite64 False 1 (- 1074)\<rparr>,
             \<lparr>strategy_code = ''PFLO:ALL_PLUR'', variable = ''congestion_benefit'',
              time_period = t, val = NaN64\<rparr>,
             \<lparr>strategy_code = ''PFLO:ALL_PLUR'', variable = ''congestion_benefit'',
              time_period = t, val = Inf64 True\<rparr>]
          = [\<lparr>strategy_code = ''PFLO:ALL_PLUR'', variable = ''congestion_benefit'',
              time_period = t, val = 0\<rparr>,
             \<lparr>strategy_code = ''PFLO:ALL_PLUR'', variable = ''congestion_benefit'',
              time_period = t, val = NaN64\<rparr>,
             \<lparr>strategy_code = ''PFLO:ALL_PLUR'', variable = ''congestion_benefit'',
              time_period = t, val = Inf64 True\<rparr>])"
  apply (intro conjI)
  subgoal by (rule corrective_rules_map)
  subgoal by (intro allI) (rule any_in_sublist)
  subgoal by (intro allI impI) (rule postprocessing_nth)
  subgoal by (intro allI impI) (rule corrective_rules_keep)
  subgoal by (simp add: perform_postprocessing_def shift_early_costs_append corrective_rules_map
        any_in_def)
  subgoal by (simp add: perform_postprocessing_def shift_early_costs_append corrective_rules_map
        any_in_def)
  subgoal by (simp add: power_int_def power_divide)
  subgoal by (simp add: power_int_def power_divide)
  subgoal by (simp add: zero_float64_def)
  subgoal by (simp add: perform_postprocessing_def shift_early_costs_append corrective_rules_map
        any_in_def)
  subgoal by (intro allI impI) (rule times_half_exact)
  subgoal by (simp add: perform_postprocessing_def shift_early_costs_append corrective_rules_map
        any_in_def zero_float64_def)
  done

text \<open>The theorem at a table of three rows: the second row is halved; the third one has
  a strategy of the first rule and a variable that contains no keyword, and is kept.\<close>

theorem perform_postprocessing_corrective_rules_witness:
  "perform_postprocessing 10 2015
     [\<lparr>strategy_code = ''PFLO:SUPPLY_SIDE_TECH'', variable = ''x_road_safety'',
       time_period = 12, val = Finite64 False 7881299347898368 (- 50)\<rparr>,
      \<lparr>strategy_code = ''PFLO:ALL_PLUR'', variable = ''congestion_benefit'',
       time_period = 10, val = Finite64 False 7036874417766400 (- 46)\<rparr>,
      \<lparr>strategy_code = ''PFLO:BETTER_BASE'', variable = ''congest_ion'',
       time_period = 3, val = Finite64 False 4503599627370496 (- 49)\<rparr>] ! 1
   = \<lparr>strategy_code = ''PFLO:ALL_PLUR'', variable = ''congestion_benefit'',
       time_period = 10, val = Finite64 False 7036874417766400 (- 47)\<rparr>
   \<and> corrective_rules
     [\<lparr>strategy_code = ''PFLO:SUPPLY_SIDE_TECH'', variable = ''x_road_safety'',
       time_period = 12, val = Finite64 False 7881299347898368 (- 50)\<rparr>,
      \<lparr>strategy_code = ''PFLO:ALL_PLUR'', variable = ''congestion_benefit'',
       time_period = 10, val = Finite64 False 7036874417766400 (- 46)\<rparr>,
      \<lparr>strategy_code = ''PFLO:BETTER_BASE'', variable = ''congest_ion'',
       time_period = 3, val = Finite64 False 4503599627370496 (- 49)\<rparr>] ! 2
   = \<lparr>strategy_code = ''PFLO:BETTER_BASE'', variable = ''congest_ion'',
       time_period = 3, val = Finite64 False 4503599627370496 (- 49)\<rparr>
   \<and> float64_real (times_half (Finite64 False 7036874417766400 (- 46))) = Some 50"
  using perform_postprocessing_corrective_rules [of
     "[\<lparr>strategy_code = ''PFLO:SUPPLY_SIDE_TECH'', variable = ''x_road_safety'',
       time_period = 12, val = Finite64 False 7881299347898368 (- 50)\<rparr>,
      \<lparr>strategy_code = ''PFLO:ALL_PLUR'', variable = ''congestion_benefit'',
       time_period = 10, val = Finite64 False 7036874417766400 (- 46)\<rparr>,
      \<lparr>strategy_code = ''PFLO:BETTER_BASE'', variable = ''congest_ion'',
       time_period = 3, val = Finite64 False 4503599627370496 (- 49)\<rparr>]" 10 2015 10]
  by (simp add: any_in_def)

subsection \<open>perform_postprocessing: the time shift\<close>

text \<open>
  C2. For a table whose time periods are all at least 0, the result of
  \<open>perform_postprocessing\<close> is the table after the corrective rules, with the value 0 in
  its rows below \<open>tx_start\<close> and its other rows as they are, followed by one copy of each
  row below \<open>tx_start\<close>, in row order: the copy has the variable extended by \<open>_shifted\<close>
  and the decimal text of \<open>time_period + time_period_0\<close>, the time period moved forward
  by \<open>tx_start\<close>, and the value the row had after the rules. The rules change no strategy
  code, variable or time period, and every appended row has a time period of at least
  \<open>tx_start\<close>, so none of them is set to 0.
\<close>

theorem perform_postprocessing_time_shift:
  fixes results_all_pp :: "'a result_row_scheme list"
  assumes nonneg: "\<forall>r\<in>set results_all_pp. 0 \<le> time_period r"
  shows
  "perform_postprocessing tx_start time_period_0 results_all_pp =
     map (\<lambda>r. if time_period r < tx_start then r\<lparr>val := 0\<rparr> else r)
       (corrective_rules results_all_pp)
     @ map (\<lambda>r. r\<lparr>variable :=
                    variable r @ ''_shifted'' @ str_int (time_period r + time_period_0),
                  time_period := time_period r + tx_start\<rparr>)
         (filter (\<lambda>r. time_period r < tx_start) (corrective_rules results_all_pp))
   \<and> map strategy_code (corrective_rules results_all_pp) = map strategy_code results_all_pp
   \<and> map variable (corrective_rules results_all_pp) = map variable results_all_pp
   \<and> map time_period (corrective_rules results_all_pp) = map time_period results_all_pp
   \<and> (\<forall>d\<in>set (drop (length results_all_pp)
                     (perform_postprocessing tx_start time_period_0 results_all_pp)).
         tx_start \<le> time_period d)"
proof -
  let ?D = "corrective_rules results_all_pp"
  have img: "time_period ` set ?D = time_period ` set results_all_pp"
    using arg_cong [OF corrective_rules_fields(3) [of results_all_pp], of set]
    by (simp only: set_map)
  have nn: "\<forall>r\<in>set ?D. 0 \<le> time_period r"
  proof
    fix r assume "r \<in> set ?D"
    then have "time_period r \<in> time_period ` set results_all_pp"
      unfolding img [symmetric] by (rule imageI)
    then obtain r0 where "r0 \<in> set results_all_pp" and "time_period r = time_period r0"
      by (rule imageE)
    with nonneg show "0 \<le> time_period r"
      by simp
  qed
  have main: "perform_postprocessing tx_start time_period_0 results_all_pp =
     map (\<lambda>r. if time_period r < tx_start then r\<lparr>val := 0\<rparr> else r) ?D
     @ map (\<lambda>r. r\<lparr>variable :=
                    variable r @ ''_shifted'' @ str_int (time_period r + time_period_0),
                  time_period := time_period r + tx_start\<rparr>)
         (filter (\<lambda>r. time_period r < tx_start) ?D)"
    unfolding perform_postprocessing_def by (rule shift_early_costs_nonneg [OF nn])
  have len: "length (map (\<lambda>r. if time_period r < tx_start then r\<lparr>val := 0\<rparr> else r) ?D)
      = length results_all_pp"
    by (simp add: corrective_rules_fields)
  have tail: "\<forall>d\<in>set (drop (length results_all_pp)
                     (perform_postprocessing tx_start time_period_0 results_all_pp)).
         tx_start \<le> time_period d"
    unfolding main drop_append len [symmetric]
    using nn by (simp only: drop_all order_refl) auto
  from main tail show ?thesis
    by (simp only: corrective_rules_fields simp_thms)
qed

theorem perform_postprocessing_time_shift_witness:
  "perform_postprocessing 10 2015
     [\<lparr>strategy_code = ''PFLO:OTHER'', variable = ''cost'', time_period = 5, val = Finite64 False 4503599627370496 (- 50)\<rparr>,
      \<lparr>strategy_code = ''PFLO:OTHER'', variable = ''cost'', time_period = 12, val = Finite64 False 6755399441055744 (- 50)\<rparr>]
   = [\<lparr>strategy_code = ''PFLO:OTHER'', variable = ''cost'', time_period = 5, val = 0\<rparr>,
      \<lparr>strategy_code = ''PFLO:OTHER'', variable = ''cost'', time_period = 12, val = Finite64 False 6755399441055744 (- 50)\<rparr>,
      \<lparr>strategy_code = ''PFLO:OTHER'', variable = ''cost_shifted2020'', time_period = 15,
        val = Finite64 False 4503599627370496 (- 50)\<rparr>]"
proof -
  have pre: "\<forall>r\<in>set [\<lparr>strategy_code = ''PFLO:OTHER'', variable = ''cost'', time_period = 5, val = Finite64 False 4503599627370496 (- 50)\<rparr>,
      \<lparr>strategy_code = ''PFLO:OTHER'', variable = ''cost'', time_period = 12, val = Finite64 False 6755399441055744 (- 50)\<rparr>].
      0 \<le> time_period r"
    by simp
  have s: "str_int 2020 = ''2020''"
    by (simp add: str_int_def str_nat.simps digit_char_def)
  have c: "corrective_rules
     [\<lparr>strategy_code = ''PFLO:OTHER'', variable = ''cost'', time_period = 5, val = Finite64 False 4503599627370496 (- 50)\<rparr>,
      \<lparr>strategy_code = ''PFLO:OTHER'', variable = ''cost'', time_period = 12, val = Finite64 False 6755399441055744 (- 50)\<rparr>]
    = [\<lparr>strategy_code = ''PFLO:OTHER'', variable = ''cost'', time_period = 5, val = Finite64 False 4503599627370496 (- 50)\<rparr>,
      \<lparr>strategy_code = ''PFLO:OTHER'', variable = ''cost'', time_period = 12, val = Finite64 False 6755399441055744 (- 50)\<rparr>]"
    by (simp add: corrective_rules_map)
  show ?thesis
    using perform_postprocessing_time_shift [OF pre, of 10 2015]
    by (simp add: c s)
qed

subsection \<open>load_parameters_from_yaml\<close>

text \<open>
  C7. \<open>open_file\<close> and \<open>safe_load\<close> stand for the file system and the YAML parser. For a
  file that parses to a mapping with all six required keys, whatever else it holds, the
  result is a dict whose keys are exactly the six required keys, in that order, each with
  its value from the file. For a mapping that lacks some of them the function fails with
  a \<open>ValueError\<close> whose message lists the missing keys, in the order of the list of
  required keys. A missing file gives \<open>FileNotFoundError\<close> with the path in the message,
  text that does not parse gives \<open>ValueError\<close> with the parser's message. The function
  returns a value if and only if the file can be opened, parses, and is a mapping that
  contains all six keys.
\<close>

theorem load_parameters_from_yaml_outcomes:
  "(open_file p = Inr content \<and> safe_load content = Inr (YDict items)
      \<and> (\<forall>k\<in>set required_keys. YStr k \<in> fst ` set items)
    \<longrightarrow> (\<exists>d. load_parameters_from_yaml open_file safe_load p = Inr d
             \<and> map fst d = required_keys
             \<and> (\<forall>k v. (k, v) \<in> set d \<longrightarrow> map_of items (YStr k) = Some v)))
   \<and> (open_file p = Inr content \<and> safe_load content = Inr (YDict items)
      \<and> filter (\<lambda>k. YStr k \<notin> fst ` set items) required_keys \<noteq> []
    \<longrightarrow> load_parameters_from_yaml open_file safe_load p =
          Inl (ValueError (''Missing required parameters in YAML file: ''
                 @ join_comma (filter (\<lambda>k. YStr k \<notin> fst ` set items) required_keys))))
   \<and> (open_file p = Inl (FileNotFoundError m)
    \<longrightarrow> load_parameters_from_yaml open_file safe_load p =
          Inl (FileNotFoundError (''The specified YAML file was not found: '' @ p)))
   \<and> (open_file p = Inr content \<and> safe_load content = Inl (YAMLError e)
    \<longrightarrow> load_parameters_from_yaml open_file safe_load p =
          Inl (ValueError (''Error parsing YAML file: '' @ e)))
   \<and> ((\<exists>d. load_parameters_from_yaml open_file safe_load p = Inr d) \<longleftrightarrow>
       (\<exists>content items. open_file p = Inr content \<and> safe_load content = Inr (YDict items)
          \<and> (\<forall>k\<in>set required_keys. YStr k \<in> fst ` set items)))"
proof (intro conjI impI)
  assume a: "open_file p = Inr content \<and> safe_load content = Inr (YDict items)
      \<and> (\<forall>k\<in>set required_keys. YStr k \<in> fst ` set items)"
  then have none: "filter (\<lambda>k. YStr k \<notin> fst ` set items) required_keys = []"
    by (simp add: filter_empty_conv)
  from a have b: "load_parameters_body open_file safe_load p
       = select_keys (YDict items) required_keys"
    using body_dict [of open_file p content safe_load items] none by simp
  from a select_keys_dict [of required_keys items]
  obtain d where d: "select_keys (YDict items) required_keys = Inr d"
    "map fst d = required_keys"
    "\<forall>k v. (k, v) \<in> set d \<longrightarrow> map_of items (YStr k) = Some v"
    by blast
  from b d(1) have "load_parameters_from_yaml open_file safe_load p = Inr d"
    by (simp add: load_Inr_body)
  with d(2,3) show "\<exists>d. load_parameters_from_yaml open_file safe_load p = Inr d
             \<and> map fst d = required_keys
             \<and> (\<forall>k v. (k, v) \<in> set d \<longrightarrow> map_of items (YStr k) = Some v)"
    by blast
next
  assume a: "open_file p = Inr content \<and> safe_load content = Inr (YDict items)
      \<and> filter (\<lambda>k. YStr k \<notin> fst ` set items) required_keys \<noteq> []"
  then have "load_parameters_body open_file safe_load p =
     Inl (ValueError (''Missing required parameters in YAML file: ''
                 @ join_comma (filter (\<lambda>k. YStr k \<notin> fst ` set items) required_keys)))"
    using body_dict [of open_file p content safe_load items] by simp
  then show "load_parameters_from_yaml open_file safe_load p =
          Inl (ValueError (''Missing required parameters in YAML file: ''
                 @ join_comma (filter (\<lambda>k. YStr k \<notin> fst ` set items) required_keys)))"
    by (simp add: load_parameters_from_yaml_def)
next
  assume "open_file p = Inl (FileNotFoundError m)"
  then show "load_parameters_from_yaml open_file safe_load p =
          Inl (FileNotFoundError (''The specified YAML file was not found: '' @ p))"
    by (simp add: load_parameters_from_yaml_def load_parameters_body_def)
next
  assume "open_file p = Inr content \<and> safe_load content = Inl (YAMLError e)"
  then show "load_parameters_from_yaml open_file safe_load p =
          Inl (ValueError (''Error parsing YAML file: '' @ e))"
    by (simp add: load_parameters_from_yaml_def load_parameters_body_def)
next
  show "(\<exists>d. load_parameters_from_yaml open_file safe_load p = Inr d) \<longleftrightarrow>
       (\<exists>content items. open_file p = Inr content \<and> safe_load content = Inr (YDict items)
          \<and> (\<forall>k\<in>set required_keys. YStr k \<in> fst ` set items))"
    unfolding load_Inr_body by (rule body_Inr_iff)
qed

text \<open>The theorem at four environments: a complete configuration with an extra key, one
  without \<open>comparison_strategy_code\<close>, a missing file, and text that does not parse.\<close>

theorem load_parameters_from_yaml_outcomes_witness:
  "(\<exists>d. load_parameters_from_yaml (\<lambda>q. Inr ''cfg'')
          (\<lambda>t. Inr (YDict
             [(YStr ''country_id'', YStr ''hr''),
              (YStr ''extra'', YInt 1),
              (YStr ''attr_primary_file_name'', YStr ''p.csv''),
              (YStr ''attr_strategy_file_name'', YStr ''s.csv''),
              (YStr ''ssp_output_data_file_name'', YStr ''o.csv''),
              (YStr ''comparison_strategy_code'', YStr ''BASE''),
              (YStr ''transformation_names_url'', YStr ''u'')]))
          ''config.yaml'' = Inr d
        \<and> map fst d = required_keys)
   \<and> load_parameters_from_yaml (\<lambda>q. Inr ''cfg'')
          (\<lambda>t. Inr (YDict
             [(YStr ''country_id'', YStr ''hr''),
              (YStr ''attr_primary_file_name'', YStr ''p.csv''),
              (YStr ''attr_strategy_file_name'', YStr ''s.csv''),
              (YStr ''ssp_output_data_file_name'', YStr ''o.csv''),
              (YStr ''transformation_names_url'', YStr ''u'')]))
          ''config.yaml''
      = Inl (ValueError ''Missing required parameters in YAML file: comparison_strategy_code'')
   \<and> load_parameters_from_yaml (\<lambda>q. Inl (FileNotFoundError ''No such file''))
          (\<lambda>t. Inr YNull) ''config.yaml''
      = Inl (FileNotFoundError ''The specified YAML file was not found: config.yaml'')
   \<and> load_parameters_from_yaml (\<lambda>q. Inr ''a: ['') (\<lambda>t. Inl (YAMLError ''bad''))
          ''config.yaml''
      = Inl (ValueError ''Error parsing YAML file: bad'')"
proof (intro conjI)
  let ?it = "[(YStr ''country_id'', YStr ''hr''),
              (YStr ''extra'', YInt 1),
              (YStr ''attr_primary_file_name'', YStr ''p.csv''),
              (YStr ''attr_strategy_file_name'', YStr ''s.csv''),
              (YStr ''ssp_output_data_file_name'', YStr ''o.csv''),
              (YStr ''comparison_strategy_code'', YStr ''BASE''),
              (YStr ''transformation_names_url'', YStr ''u'')]"
  have "\<forall>k\<in>set required_keys. YStr k \<in> fst ` set ?it"
    by (simp add: required_keys_def)
  with load_parameters_from_yaml_outcomes
         [of "\<lambda>q. Inr ''cfg''" "''config.yaml''" "''cfg''" "\<lambda>t. Inr (YDict ?it)" ?it]
  show "\<exists>d. load_parameters_from_yaml (\<lambda>q. Inr ''cfg'') (\<lambda>t. Inr (YDict ?it))
          ''config.yaml'' = Inr d \<and> map fst d = required_keys"
    by blast
next
  let ?it = "[(YStr ''country_id'', YStr ''hr''),
              (YStr ''attr_primary_file_name'', YStr ''p.csv''),
              (YStr ''attr_strategy_file_name'', YStr ''s.csv''),
              (YStr ''ssp_output_data_file_name'', YStr ''o.csv''),
              (YStr ''transformation_names_url'', YStr ''u'')]"
  have f: "filter (\<lambda>k. YStr k \<notin> fst ` set ?it) required_keys = [''comparison_strategy_code'']"
    by (simp add: required_keys_def)
  show "load_parameters_from_yaml (\<lambda>q. Inr ''cfg'') (\<lambda>t. Inr (YDict ?it)) ''config.yaml''
      = Inl (ValueError ''Missing required parameters in YAML file: comparison_strategy_code'')"
    using load_parameters_from_yaml_outcomes
         [of "\<lambda>q. Inr ''cfg''" "''config.yaml''" "''cfg''" "\<lambda>t. Inr (YDict ?it)" ?it]
    unfolding f by simp
next
  show "load_parameters_from_yaml (\<lambda>q. Inl (FileNotFoundError ''No such file''))
          (\<lambda>t. Inr YNull) ''config.yaml''
      = Inl (FileNotFoundError ''The specified YAML file was not found: config.yaml'')"
    using load_parameters_from_yaml_outcomes
         [of "\<lambda>q. Inl (FileNotFoundError ''No such file'')" "''config.yaml''" _ _ _ "''No such file''"]
    by simp
next
  show "load_parameters_from_yaml (\<lambda>q. Inr ''a: ['') (\<lambda>t. Inl (YAMLError ''bad''))
          ''config.yaml''
      = Inl (ValueError ''Error parsing YAML file: bad'')"
    using load_parameters_from_yaml_outcomes
         [of "\<lambda>q. Inr ''a: [''" "''config.yaml''" "''a: [''" "\<lambda>t. Inl (YAMLError ''bad'')" _ _ "''bad''"]
    by simp
qed

subsection \<open>check_missing_transformations\<close>

text \<open>
  C8, as the claim words it, fails in its last sentence: the function creates no
  directory and catches nothing, so where \<open>debug/\<close> does not exist \<open>to_csv\<close> raises
  \<open>OSError\<close> and the call ends with that exception, after the warning was printed and
  before the message that the report was saved. With the specifications \<open>A|B\<close> and \<open>C\<close>
  and the known codes \<open>A\<close> and \<open>C\<close> of the example:
\<close>

theorem check_missing_transformations_write_fails:
  "check_missing_transformations
     (\<lambda>path column rows. Inl (OSError ''Cannot save file into a non-existent directory''))
     [\<lparr>strategy_code = ''S1'', transformation_specification = Some ''A|B''\<rparr>,
      \<lparr>strategy_code = ''S2'', transformation_specification = Some ''C''\<rparr>,
      \<lparr>strategy_code = ''S3'', transformation_specification = None\<rparr>]
     [\<lparr>transformation_code = ''A''\<rparr>, \<lparr>transformation_code = ''C''\<rparr>]
   = ([PrintMissing [''B'']],
      Inl (OSError ''Cannot save file into a non-existent directory''))"
proof -
  let ?a = "[\<lparr>strategy_code = ''S1'', transformation_specification = Some ''A|B''\<rparr>,
      \<lparr>strategy_code = ''S2'', transformation_specification = Some ''C''\<rparr>,
      \<lparr>strategy_code = ''S3'', transformation_specification = None\<rparr>]"
  let ?k = "[\<lparr>transformation_code = ''A''\<rparr>, \<lparr>transformation_code = ''C''\<rparr>]"
  let ?w = "\<lambda>path column rows :: string list.
    (Inl (OSError ''Cannot save file into a non-existent directory'') :: py_error + unit)"
  from check_missing_transformations_cases [of ?a ?k "\<lambda>path column. ?w path column"]
  obtain missing where m: "distinct missing"
    "set missing = {t. \<exists>r\<in>set ?a. \<exists>s. transformation_specification r = Some s
                  \<and> t \<in> set (split_pipe s)} - transformation_code ` set ?k"
    and c: "check_missing_transformations (\<lambda>path column. ?w path column) ?a ?k =
          (if missing \<noteq> []
           then (case ?w ''debug/missing_transformations_report.csv''
                        ''missing_transformations'' missing of
                   Inl e \<Rightarrow> ([PrintMissing missing], Inl e)
                 | Inr written \<Rightarrow>
                     ([PrintMissing missing,
                       WriteCsv ''debug/missing_transformations_report.csv''
                         ''missing_transformations'' missing,
                       PrintReportSaved ''debug/missing_transformations_report.csv''], Inr ()))
           else ([PrintNoMissing], Inr ()))"
    by blast
  from m have "missing = [''B'']"
    by (rule example_missing)
  with c show ?thesis by simp
qed

text \<open>
  C8, amended. The reported list is the increasing list, without repetitions, of the
  tokens that some non-null \<open>transformation_specification\<close> of the attribute table yields
  when split at \<open>|\<close> and that are no \<open>transformation_code\<close> of the cost definitions. When
  the list is not empty the function prints the warning with it and writes exactly it to
  \<open>debug/missing_transformations_report.csv\<close>: if the write succeeds it prints where the
  report was saved and returns normally, and if the write raises, that exception is the
  outcome of the call. When the list is empty the function prints the OK message, writes
  nothing and returns normally. So the call returns normally exactly when nothing is
  missing or the write succeeds.
\<close>

theorem check_missing_transformations_report:
  "\<exists>missing. sorted missing \<and> distinct missing
      \<and> set missing =
           {t. \<exists>r\<in>set attributes_df. \<exists>s. transformation_specification r = Some s
                  \<and> t \<in> set (split_pipe s)}
           - transformation_code ` set transformation_cost_definitions
      \<and> check_missing_transformations to_csv attributes_df transformation_cost_definitions =
          (if missing \<noteq> []
           then (case to_csv ''debug/missing_transformations_report.csv''
                        ''missing_transformations'' missing of
                   Inl e \<Rightarrow> ([PrintMissing missing], Inl e)
                 | Inr written \<Rightarrow>
                     ([PrintMissing missing,
                       WriteCsv ''debug/missing_transformations_report.csv''
                         ''missing_transformations'' missing,
                       PrintReportSaved ''debug/missing_transformations_report.csv''], Inr ()))
           else ([PrintNoMissing], Inr ()))
      \<and> (snd (check_missing_transformations to_csv attributes_df
                 transformation_cost_definitions) = Inr ()
           \<longleftrightarrow> missing = []
               \<or> (\<exists>written. to_csv ''debug/missing_transformations_report.csv''
                               ''missing_transformations'' missing = Inr written))"
proof -
  from check_missing_transformations_cases [of attributes_df transformation_cost_definitions to_csv]
  obtain missing where m: "sorted missing" "distinct missing"
    "set missing = {t. \<exists>r\<in>set attributes_df. \<exists>s. transformation_specification r = Some s
                  \<and> t \<in> set (split_pipe s)}
           - transformation_code ` set transformation_cost_definitions"
    and c: "check_missing_transformations to_csv attributes_df transformation_cost_definitions =
          (if missing \<noteq> []
           then (case to_csv ''debug/missing_transformations_report.csv''
                        ''missing_transformations'' missing of
                   Inl e \<Rightarrow> ([PrintMissing missing], Inl e)
                 | Inr written \<Rightarrow>
                     ([PrintMissing missing,
                       WriteCsv ''debug/missing_transformations_report.csv''
                         ''missing_transformations'' missing,
                       PrintReportSaved ''debug/missing_transformations_report.csv''], Inr ()))
           else ([PrintNoMissing], Inr ()))"
    by blast
  have r: "snd (check_missing_transformations to_csv attributes_df
                 transformation_cost_definitions) = Inr ()
           \<longleftrightarrow> missing = []
               \<or> (\<exists>written. to_csv ''debug/missing_transformations_report.csv''
                               ''missing_transformations'' missing = Inr written)"
    unfolding c by (simp split: sum.splits)
  from m c r show ?thesis by blast
qed

text \<open>The example of the specification where the write succeeds: the specifications
  \<open>A|B\<close> and \<open>C\<close> (and a null one) against the known codes \<open>A\<close> and \<open>C\<close> report exactly
  \<open>B\<close>; and a table with nothing missing.\<close>

theorem check_missing_transformations_report_witness:
  "check_missing_transformations (\<lambda>path column rows. Inr ())
     [\<lparr>strategy_code = ''S1'', transformation_specification = Some ''A|B''\<rparr>,
      \<lparr>strategy_code = ''S2'', transformation_specification = Some ''C''\<rparr>,
      \<lparr>strategy_code = ''S3'', transformation_specification = None\<rparr>]
     [\<lparr>transformation_code = ''A''\<rparr>, \<lparr>transformation_code = ''C''\<rparr>]
   = ([PrintMissing [''B''],
       WriteCsv ''debug/missing_transformations_report.csv'' ''missing_transformations'' [''B''],
       PrintReportSaved ''debug/missing_transformations_report.csv''], Inr ())
   \<and> check_missing_transformations (\<lambda>path column rows. Inr ())
     [\<lparr>strategy_code = ''S1'', transformation_specification = Some ''A''\<rparr>]
     [\<lparr>transformation_code = ''A''\<rparr>, \<lparr>transformation_code = ''C''\<rparr>]
   = ([PrintNoMissing], Inr ())"
proof -
  let ?a = "[\<lparr>strategy_code = ''S1'', transformation_specification = Some ''A|B''\<rparr>,
      \<lparr>strategy_code = ''S2'', transformation_specification = Some ''C''\<rparr>,
      \<lparr>strategy_code = ''S3'', transformation_specification = None\<rparr>]"
  let ?b = "[\<lparr>strategy_code = ''S1'', transformation_specification = Some ''A''\<rparr>]"
  let ?k = "[\<lparr>transformation_code = ''A''\<rparr>, \<lparr>transformation_code = ''C''\<rparr>]"
  let ?w = "\<lambda>path column rows :: string list. (Inr () :: py_error + unit)"
  from check_missing_transformations_report [of ?a ?k "\<lambda>path column. ?w path column"]
  obtain missing where m: "distinct missing"
    "set missing = {t. \<exists>r\<in>set ?a. \<exists>s. transformation_specification r = Some s
                  \<and> t \<in> set (split_pipe s)} - transformation_code ` set ?k"
    and c: "check_missing_transformations (\<lambda>path column. ?w path column) ?a ?k =
          (if missing \<noteq> []
           then (case ?w ''debug/missing_transformations_report.csv''
                        ''missing_transformations'' missing of
                   Inl e \<Rightarrow> ([PrintMissing missing], Inl e)
                 | Inr written \<Rightarrow>
                     ([PrintMissing missing,
                       WriteCsv ''debug/missing_transformations_report.csv''
                         ''missing_transformations'' missing,
                       PrintReportSaved ''debug/missing_transformations_report.csv''], Inr ()))
           else ([PrintNoMissing], Inr ()))"
    by blast
  from m have "missing = [''B'']"
    by (rule example_missing)
  with c have first: "check_missing_transformations (\<lambda>path column. ?w path column) ?a ?k
    = ([PrintMissing [''B''],
       WriteCsv ''debug/missing_transformations_report.csv'' ''missing_transformations'' [''B''],
       PrintReportSaved ''debug/missing_transformations_report.csv''], Inr ())"
    by simp
  from check_missing_transformations_report [of ?b ?k "\<lambda>path column. ?w path column"]
  obtain missing' where m': "set missing' = {t. \<exists>r\<in>set ?b. \<exists>s. transformation_specification r = Some s
                  \<and> t \<in> set (split_pipe s)} - transformation_code ` set ?k"
    and c': "check_missing_transformations (\<lambda>path column. ?w path column) ?b ?k =
          (if missing' \<noteq> []
           then (case ?w ''debug/missing_transformations_report.csv''
                        ''missing_transformations'' missing' of
                   Inl e \<Rightarrow> ([PrintMissing missing'], Inl e)
                 | Inr written \<Rightarrow>
                     ([PrintMissing missing',
                       WriteCsv ''debug/missing_transformations_report.csv''
                         ''missing_transformations'' missing',
                       PrintReportSaved ''debug/missing_transformations_report.csv''], Inr ()))
           else ([PrintNoMissing], Inr ()))"
    by blast
  have "{t. \<exists>r\<in>set ?b. \<exists>s. transformation_specification r = Some s
                  \<and> t \<in> set (split_pipe s)} - transformation_code ` set ?k = {}"
    by (simp add: set_eq_iff)
  with m' have "missing' = []" by simp
  with c' have second: "check_missing_transformations (\<lambda>path column. ?w path column) ?b ?k
    = ([PrintNoMissing], Inr ())"
    by simp
  from first second show ?thesis by simp
qed

subsection \<open>The argument table is not changed\<close>

text \<open>
  C10. With the tables as objects of a heap, each of
  \<open>remove_suffix_from_transformations\<close>, \<open>perform_postprocessing\<close> and
  \<open>add_total_tlu_calculation\<close> leaves every object that existed before the call as it
  was, the table passed in among them, also when the call ends in an exception; the
  table it returns is an object that did not exist before. For the first two the returned
  object holds what the function computes from the table passed in.
\<close>

theorem table_operations_leave_argument_unchanged:
  "(\<forall>b<next_free h1.
       cells (snd (remove_suffix_from_transformations_heap h1 attr_df)) b = cells h1 b)
   \<and> (case fst (remove_suffix_from_transformations_heap h1 attr_df) of
         Inr df \<Rightarrow> next_free h1 \<le> df
           \<and> remove_suffix_from_transformations (cells h1 attr_df)
               = Inr (cells (snd (remove_suffix_from_transformations_heap h1 attr_df)) df)
       | Inl e \<Rightarrow> remove_suffix_from_transformations (cells h1 attr_df) = Inl e)
   \<and> (\<forall>b<next_free h2.
       cells (snd (perform_postprocessing_heap tx_start time_period_0 h2 results_all_pp)) b
       = cells h2 b)
   \<and> next_free h2 \<le> fst (perform_postprocessing_heap tx_start time_period_0 h2 results_all_pp)
   \<and> cells (snd (perform_postprocessing_heap tx_start time_period_0 h2 results_all_pp))
         (fst (perform_postprocessing_heap tx_start time_period_0 h2 results_all_pp))
       = perform_postprocessing tx_start time_period_0 (cells h2 results_all_pp)
   \<and> (\<forall>b<next_free h3.
       cells (snd (add_total_tlu_calculation_heap pd ids h3 df tlu_conversions_df cols_to_keep)) b
       = cells h3 b)
   \<and> (case fst (add_total_tlu_calculation_heap pd ids h3 df tlu_conversions_df cols_to_keep) of
         Inr r \<Rightarrow> next_free h3 \<le> r
       | Inl e \<Rightarrow> True)"
proof -
  note a = remove_suffix_heap_frame [of h1 attr_df]
  note b = postprocessing_heap_frame [of h2 tx_start time_period_0 results_all_pp]
  note c = tlu_heap_frame [of h3 pd ids df tlu_conversions_df cols_to_keep]
  show ?thesis
    by (intro conjI)
      (rule a [THEN conjunct1] a [THEN conjunct2]
            b [THEN conjunct1] b [THEN conjunct2, THEN conjunct1]
            b [THEN conjunct2, THEN conjunct2]
            c [THEN conjunct1] c [THEN conjunct2])+
qed

text \<open>The theorem at heaps whose objects 0 (and 1) exist: after each call object 0, the
  argument, holds what it held before.\<close>

theorem table_operations_leave_argument_unchanged_witness:
  "cells (snd (remove_suffix_from_transformations_heap
         \<lparr>cells = (\<lambda>a. [\<lparr>strategy_code = ''S'',
                                transformation_specification = Some ''TX:A_LOW|TX:B''\<rparr>]),
          next_free = 1\<rparr> 0)) 0
     = [\<lparr>strategy_code = ''S'', transformation_specification = Some ''TX:A_LOW|TX:B''\<rparr>]
   \<and> cells (snd (perform_postprocessing_heap 10 2015
         \<lparr>cells = (\<lambda>a. [\<lparr>strategy_code = ''PFLO:ALL_PLUR'', variable = ''congestion'',
                                time_period = 5, val = Finite64 False 4503599627370496 (- 49)\<rparr>]),
          next_free = 1\<rparr> 0)) 0
     = [\<lparr>strategy_code = ''PFLO:ALL_PLUR'', variable = ''congestion'',
         time_period = 5, val = Finite64 False 4503599627370496 (- 49)\<rparr>]
   \<and> cells (snd (add_total_tlu_calculation_heap
         \<lparr>pd_select = (\<lambda>cs t. Inr (t :: nat)), pd_melt = (\<lambda>cs t. Inr t),
          pd_merge = (\<lambda>cs t u. Inr (t + u)), pd_product = (\<lambda>c a b t. Inr (2 * t)),
          pd_groupby_sum = (\<lambda>cs a b t. Inr t)\<rparr>
         [''primary_id'']
         \<lparr>cells = (\<lambda>a. 7), next_free = 2\<rparr> 0 1 [''pop_lvst_cattle''])) 0
     = 7"
  using table_operations_leave_argument_unchanged
    [of "\<lparr>cells = (\<lambda>a. [\<lparr>strategy_code = ''S'',
                                transformation_specification = Some ''TX:A_LOW|TX:B''\<rparr>]),
          next_free = 1\<rparr>" 0
        "\<lparr>cells = (\<lambda>a. [\<lparr>strategy_code = ''PFLO:ALL_PLUR'', variable = ''congestion'',
                                time_period = 5, val = Finite64 False 4503599627370496 (- 49)\<rparr>]),
          next_free = 1\<rparr>" 10 2015 0
        "\<lparr>cells = (\<lambda>a. 7), next_free = 2\<rparr>"
        "\<lparr>pd_select = (\<lambda>cs t. Inr (t :: nat)), pd_melt = (\<lambda>cs t. Inr t),
          pd_merge = (\<lambda>cs t u. Inr (t + u)), pd_product = (\<lambda>c a b t. Inr (2 * t)),
          pd_groupby_sum = (\<lambda>cs a b t. Inr t)\<rparr>"
        "[''primary_id'']" 0 1 "[''pop_lvst_cattle'']"]
  by simp

subsection \<open>build_attribute_strategy_code\<close>

text \<open>
  C6, as the claim words it, fails for some code-list tables. For an empty one
  \<open>fetch_csv_from_github\<close> prints the error message and returns \<open>None\<close>, and
  \<open>transformer_df['transformer_code']\<close> then raises \<open>TypeError\<close>: no table is produced.
  For a code list with a code spelled \<open>strategy_code\<close> the matrix has two columns of
  that label, and the first assignment of a 1 raises \<open>KeyError\<close>.
\<close>

theorem build_attribute_strategy_code_counterexample:
  "build_attribute_strategy_code (\<lambda>u. Inr ([] :: transformer_row list))
     ''https://github.com/o/r/blob/main/t.csv'' [''S'']
     [\<lparr>strategy_code = ''S'', transformation_specification = Some ''TX:A''\<rparr>]
   = ([PrintFetchError ''https://raw.githubusercontent.com/o/r/main/t.csv''
         (ValueError
            ''The CSV file fetched from https://raw.githubusercontent.com/o/r/main/t.csv is empty.'')],
      Inl TypeError)
   \<and> build_attribute_strategy_code
     (\<lambda>u. Inr [\<lparr>transformer_code = ''TFR:A''\<rparr>, \<lparr>transformer_code = ''strategy_code''\<rparr>])
     ''https://github.com/o/r/blob/main/t.csv'' [''S'']
     [\<lparr>strategy_code = ''S'', transformation_specification = Some ''TX:A''\<rparr>]
   = ([PrintFetched ''https://raw.githubusercontent.com/o/r/main/t.csv''], Inl KeyError)"
  by (simp add: build_attribute_strategy_code_def fetch_csv_from_github_def raw_github_url_def
      get_default_transformation_codes_def loc_set_indicator_def initial_matrix_def Let_def)

text \<open>
  C6, amended. When the fetch returns a non-empty code table none of whose codes is
  spelled \<open>strategy_code\<close>, the function prints the success message and returns the
  matrix with the known codes as columns and one row per entry of the strategy list, in
  list order; the cell for a strategy and a code is 1 if the first row of the attribute
  table with that strategy has a non-null specification whose tokens, split at \<open>|\<close>,
  contain the code, and 0 otherwise (no such row, a null specification, or a token that
  is no known code leave 0). Where the rows of a strategy in the attribute table all carry
  the same specification, as with one row per strategy, the cell is the indicator of the
  claim: 1 if the strategy appears in the attribute table with a non-null specification
  whose tokens contain the code, and 0 otherwise.
\<close>

theorem build_attribute_strategy_code_first_row:
  assumes fetched: "read_csv (raw_github_url url) = Inr transformer_df"
    and nonempty: "transformer_df \<noteq> []"
    and label: "''strategy_code'' \<notin> set (get_default_transformation_codes transformer_df)"
  shows
  "build_attribute_strategy_code read_csv url strategies_list attr_data_df =
     ([PrintFetched (raw_github_url url)],
      Inr (get_default_transformation_codes transformer_df,
           map (\<lambda>s. \<lparr>strategy_code = s,
                       indicator =
                         map (\<lambda>c. IntCell
                                (if (case List.find (\<lambda>r. strategy_code r = s) attr_data_df of
                                        None \<Rightarrow> False
                                      | Some r \<Rightarrow>
                                          (case transformation_specification r of
                                             None \<Rightarrow> False
                                           | Some transformations \<Rightarrow>
                                               c \<in> set (split_pipe transformations)))
                                  then 1 else 0))
                           (get_default_transformation_codes transformer_df)\<rparr>)
             strategies_list))
   \<and> ((\<forall>r\<in>set attr_data_df. \<forall>r'\<in>set attr_data_df.
          strategy_code r = strategy_code r'
            \<longrightarrow> transformation_specification r = transformation_specification r') \<longrightarrow>
        build_attribute_strategy_code read_csv url strategies_list attr_data_df =
          ([PrintFetched (raw_github_url url)],
           Inr (get_default_transformation_codes transformer_df,
                map (\<lambda>s. \<lparr>strategy_code = s,
                            indicator =
                              map (\<lambda>c. IntCell (claimed_indicator attr_data_df s c))
                                (get_default_transformation_codes transformer_df)\<rparr>)
                  strategies_list)))"
proof (intro conjI impI)
  show "build_attribute_strategy_code read_csv url strategies_list attr_data_df =
     ([PrintFetched (raw_github_url url)],
      Inr (get_default_transformation_codes transformer_df,
           map (\<lambda>s. \<lparr>strategy_code = s,
                       indicator =
                         map (\<lambda>c. IntCell
                                (if (case List.find (\<lambda>r. strategy_code r = s) attr_data_df of
                                        None \<Rightarrow> False
                                      | Some r \<Rightarrow>
                                          (case transformation_specification r of
                                             None \<Rightarrow> False
                                           | Some transformations \<Rightarrow>
                                               c \<in> set (split_pipe transformations)))
                                  then 1 else 0))
                           (get_default_transformation_codes transformer_df)\<rparr>)
             strategies_list))"
    by (rule build_first_row [of read_csv url transformer_df, OF fetched nonempty label])
next
  assume one: "\<forall>r\<in>set attr_data_df. \<forall>r'\<in>set attr_data_df.
          strategy_code r = strategy_code r'
            \<longrightarrow> transformation_specification r = transformation_specification r'"
  have "claimed_indicator attr_data_df s c =
      (if (case List.find (\<lambda>r. strategy_code r = s) attr_data_df of
              None \<Rightarrow> False
            | Some r \<Rightarrow>
                (case transformation_specification r of
                   None \<Rightarrow> False
                 | Some transformations \<Rightarrow> c \<in> set (split_pipe transformations)))
       then 1 else 0)" for s c
    unfolding claimed_indicator_def
    using find_consistent_key [OF one, of s
        "\<lambda>spec. case spec of None \<Rightarrow> False | Some transformations \<Rightarrow> c \<in> set (split_pipe transformations)"]
    by simp
  then show "build_attribute_strategy_code read_csv url strategies_list attr_data_df =
          ([PrintFetched (raw_github_url url)],
           Inr (get_default_transformation_codes transformer_df,
                map (\<lambda>s. \<lparr>strategy_code = s,
                            indicator =
                              map (\<lambda>c. IntCell (claimed_indicator attr_data_df s c))
                                (get_default_transformation_codes transformer_df)\<rparr>)
                  strategies_list))"
    by (simp only: build_first_row [of read_csv url transformer_df, OF fetched nonempty label])
qed

text \<open>The examples of the specification: \<open>TX:A|TX:B\<close> (with a token that is no known
  code) against the known codes \<open>TX:A\<close>, \<open>TX:B\<close>, \<open>TX:C\<close> gives \<open>[1, 1, 0]\<close>; a strategy
  that is absent from the attribute table and one with a null specification give zeros.\<close>

theorem build_attribute_strategy_code_first_row_witness:
  "build_attribute_strategy_code
     (\<lambda>u. Inr [\<lparr>transformer_code = ''TFR:BASE''\<rparr>, \<lparr>transformer_code = ''TFR:A''\<rparr>,
               \<lparr>transformer_code = ''TFR:B''\<rparr>, \<lparr>transformer_code = ''TFR:C''\<rparr>])
     ''https://github.com/o/r/blob/main/t.csv'' [''S1'', ''S2'', ''S3'']
     [\<lparr>strategy_code = ''S1'', transformation_specification = Some ''TX:A|TX:B|TX:Z''\<rparr>,
      \<lparr>strategy_code = ''S3'', transformation_specification = None\<rparr>]
   = ([PrintFetched ''https://raw.githubusercontent.com/o/r/main/t.csv''],
      Inr ([''TX:A'', ''TX:B'', ''TX:C''],
           [\<lparr>strategy_code = ''S1'', indicator = [IntCell 1, IntCell 1, IntCell 0]\<rparr>,
            \<lparr>strategy_code = ''S2'', indicator = [IntCell 0, IntCell 0, IntCell 0]\<rparr>,
            \<lparr>strategy_code = ''S3'', indicator = [IntCell 0, IntCell 0, IntCell 0]\<rparr>]))"
proof -
  let ?t = "[\<lparr>transformer_code = ''TFR:BASE''\<rparr>, \<lparr>transformer_code = ''TFR:A''\<rparr>,
               \<lparr>transformer_code = ''TFR:B''\<rparr>, \<lparr>transformer_code = ''TFR:C''\<rparr>]"
  let ?a = "[\<lparr>strategy_code = ''S1'',
                 transformation_specification = Some ''TX:A|TX:B|TX:Z''\<rparr>,
               \<lparr>strategy_code = ''S3'', transformation_specification = None\<rparr>]"
  have codes: "get_default_transformation_codes ?t = [''TX:A'', ''TX:B'', ''TX:C'']"
    by (simp add: get_default_transformation_codes_def)
  have url: "raw_github_url ''https://github.com/o/r/blob/main/t.csv''
               = ''https://raw.githubusercontent.com/o/r/main/t.csv''"
    by (simp add: raw_github_url_def)
  have a: "(\<lambda>u. Inr ?t) (raw_github_url ''https://github.com/o/r/blob/main/t.csv'') = Inr ?t"
    by simp
  have b: "?t \<noteq> []" by simp
  have c: "''strategy_code'' \<notin> set (get_default_transformation_codes ?t)"
    unfolding codes by simp
  have one: "\<forall>r\<in>set ?a. \<forall>r'\<in>set ?a.
          strategy_code r = strategy_code r'
            \<longrightarrow> transformation_specification r = transformation_specification r'"
    by simp
  have ind: "map (\<lambda>s. \<lparr>strategy_code = s,
                      indicator = map (\<lambda>c. IntCell (claimed_indicator ?a s c))
                                    [''TX:A'', ''TX:B'', ''TX:C'']\<rparr>)
               [''S1'', ''S2'', ''S3'']
          = [\<lparr>strategy_code = ''S1'', indicator = [IntCell 1, IntCell 1, IntCell 0]\<rparr>,
            \<lparr>strategy_code = ''S2'', indicator = [IntCell 0, IntCell 0, IntCell 0]\<rparr>,
            \<lparr>strategy_code = ''S3'', indicator = [IntCell 0, IntCell 0, IntCell 0]\<rparr>]"
    by (simp add: claimed_indicator_def)
  from build_attribute_strategy_code_first_row
        [where read_csv = "\<lambda>u. Inr ?t"
           and url = "''https://github.com/o/r/blob/main/t.csv''"
           and transformer_df = ?t
           and strategies_list = "[''S1'', ''S2'', ''S3'']"
           and attr_data_df = ?a,
         OF a b c]
  have "build_attribute_strategy_code (\<lambda>u. Inr ?t)
     ''https://github.com/o/r/blob/main/t.csv'' [''S1'', ''S2'', ''S3''] ?a
     = ([PrintFetched (raw_github_url ''https://github.com/o/r/blob/main/t.csv'')],
           Inr (get_default_transformation_codes ?t,
                map (\<lambda>s. \<lparr>strategy_code = s,
                            indicator =
                              map (\<lambda>c. IntCell (claimed_indicator ?a s c))
                                (get_default_transformation_codes ?t)\<rparr>)
                  [''S1'', ''S2'', ''S3'']))"
    using one by (elim conjE) (erule mp)
  then show ?thesis
    unfolding codes url ind .
qed

subsection \<open>remove_suffix_from_transformations: applying it twice\<close>

text \<open>
  C4, as the claim words it, fails: one application removes one suffix from the end of a
  token, so a token that carries two of them loses the second one in the second
  application. \<open>TX:A_HIGH_LOW\<close> becomes \<open>TX:A_HIGH\<close>, and that becomes \<open>TX:A\<close>.
\<close>

theorem remove_suffix_twice_counterexample:
  "remove_suffix_from_transformations
     [\<lparr>strategy_code = ''S'', transformation_specification = Some ''TX:A_HIGH_LOW''\<rparr>]
   = Inr [\<lparr>strategy_code = ''S'', transformation_specification = Some ''TX:A_HIGH''\<rparr>]
   \<and> remove_suffix_from_transformations
     [\<lparr>strategy_code = ''S'', transformation_specification = Some ''TX:A_HIGH''\<rparr>]
   = Inr [\<lparr>strategy_code = ''S'', transformation_specification = Some ''TX:A''\<rparr>]"
  by (simp add: remove_suffix_from_transformations_def clean_transformation_specification_def
      suffixes_to_remove_def at_end_def)

text \<open>
  C4, amended. For an attribute table whose specifications are strings without a newline
  character, both applications return a table, and the second application changes nothing
  exactly when, after the first one, no token ends in one of the listed suffixes.
\<close>

theorem remove_suffix_twice:
  assumes strings: "\<forall>r\<in>set attr_df.
      \<exists>s. transformation_specification r = Some s \<and> CHR 0x0A \<notin> set s"
  shows "\<exists>once twice.
      remove_suffix_from_transformations attr_df = Inr once
      \<and> remove_suffix_from_transformations once = Inr twice
      \<and> (twice = once \<longleftrightarrow>
           (\<forall>r\<in>set once. \<forall>s. transformation_specification r = Some s \<longrightarrow>
              (\<forall>tok\<in>set (split_pipe s).
                 \<not> (\<exists>suf\<in>set suffixes_to_remove. suffix suf tok))))"
proof -
  let ?upd = "\<lambda>r :: 'a attr_row_scheme. r\<lparr>transformation_specification :=
                        map_option clean_transformation_specification
                          (transformation_specification r)\<rparr>"
  let ?once = "map ?upd attr_df"
  let ?twice = "map ?upd ?once"
  from strings have some0: "\<forall>r\<in>set attr_df. transformation_specification r \<noteq> None"
    by auto
  have once: "remove_suffix_from_transformations attr_df = Inr ?once"
    unfolding remove_suffix_from_transformations_def
    by (rule apply_clean_all_some [OF some0])
  have strings1: "\<exists>s. transformation_specification r = Some s \<and> CHR 0x0A \<notin> set s"
    if "r \<in> set ?once" for r
  proof -
    from that obtain r0 where r0: "r0 \<in> set attr_df" and r: "r = ?upd r0"
      by auto
    from strings r0 obtain s0 where s0: "transformation_specification r0 = Some s0"
      and nl: "CHR 0x0A \<notin> set s0"
      by blast
    from r s0 have "transformation_specification r = Some (clean_transformation_specification s0)"
      by simp
    with clean_no_newline [OF nl] show ?thesis by blast
  qed
  then have some1: "\<forall>r\<in>set ?once. transformation_specification r \<noteq> None"
    by fastforce
  have twice: "remove_suffix_from_transformations ?once = Inr ?twice"
    unfolding remove_suffix_from_transformations_def
    by (rule apply_clean_all_some [OF some1])
  have fix_row: "?upd r = r \<longleftrightarrow>
      (\<forall>s. transformation_specification r = Some s \<longrightarrow>
         (\<forall>tok\<in>set (split_pipe s). \<not> (\<exists>suf\<in>set suffixes_to_remove. suffix suf tok)))"
    if "r \<in> set ?once" for r
  proof -
    from strings1 [OF that] obtain s where s: "transformation_specification r = Some s"
      and nl: "CHR 0x0A \<notin> set s"
      by blast
    have tok_nl: "CHR 0x0A \<notin> set tok" if "tok \<in> set (split_pipe s)" for tok
      using split_pipe_chars [OF that] nl by (meson subsetD)
    have "?upd r = r \<longleftrightarrow> clean_transformation_specification s = s"
      unfolding update_spec_fixed by (simp add: s)
    also have "\<dots> \<longleftrightarrow> (\<forall>tok\<in>set (split_pipe s). re_sub_suffix tok = tok)"
      by (rule clean_fixed)
    also have "\<dots> \<longleftrightarrow> (\<forall>tok\<in>set (split_pipe s).
                 \<not> (\<exists>suf\<in>set suffixes_to_remove. suffix suf tok))"
      using tok_nl by (simp add: re_sub_suffix_fixed)
    finally show ?thesis
      by (simp add: s)
  qed
  have "?twice = ?once \<longleftrightarrow> (\<forall>r\<in>set ?once. ?upd r = r)"
    using map_eq_conv [of ?upd ?once "\<lambda>r. r"] by simp
  also have "\<dots> \<longleftrightarrow> (\<forall>r\<in>set ?once. \<forall>s. transformation_specification r = Some s \<longrightarrow>
         (\<forall>tok\<in>set (split_pipe s). \<not> (\<exists>suf\<in>set suffixes_to_remove. suffix suf tok)))"
    using fix_row by (intro ball_cong refl) 
  finally have iff: "?twice = ?once \<longleftrightarrow> (\<forall>r\<in>set ?once. \<forall>s. transformation_specification r = Some s \<longrightarrow>
         (\<forall>tok\<in>set (split_pipe s). \<not> (\<exists>suf\<in>set suffixes_to_remove. suffix suf tok)))" .
  from once twice iff show ?thesis
    by blast
qed

text \<open>The theorem at the example of the specification: after one application the tokens
  are \<open>TX:ABC\<close> and \<open>TX:DEF\<close>, which end in no suffix, and the second application returns
  the same table.\<close>

theorem remove_suffix_twice_witness:
  "remove_suffix_from_transformations
     [\<lparr>strategy_code = ''S'',
       transformation_specification = Some ''TX:ABC_LOW|TX:DEF_HIGHEST''\<rparr>]
   = Inr [\<lparr>strategy_code = ''S'', transformation_specification = Some ''TX:ABC|TX:DEF''\<rparr>]
   \<and> remove_suffix_from_transformations
     [\<lparr>strategy_code = ''S'', transformation_specification = Some ''TX:ABC|TX:DEF''\<rparr>]
   = Inr [\<lparr>strategy_code = ''S'', transformation_specification = Some ''TX:ABC|TX:DEF''\<rparr>]"
proof -
  let ?t = "[\<lparr>strategy_code = ''S'',
       transformation_specification = Some ''TX:ABC_LOW|TX:DEF_HIGHEST''\<rparr>]"
  let ?t1 = "[\<lparr>strategy_code = ''S'', transformation_specification = Some ''TX:ABC|TX:DEF''\<rparr>]"
  have pre: "\<forall>r\<in>set ?t. \<exists>s. transformation_specification r = Some s \<and> CHR 0x0A \<notin> set s"
    by simp
  have ev: "remove_suffix_from_transformations ?t = Inr ?t1"
    by (simp add: remove_suffix_from_transformations_def clean_transformation_specification_def
        suffixes_to_remove_def at_end_def)
  from remove_suffix_twice [OF pre] obtain once twice
    where o: "remove_suffix_from_transformations ?t = Inr once"
      and t: "remove_suffix_from_transformations once = Inr twice"
      and iff: "twice = once \<longleftrightarrow>
           (\<forall>r\<in>set once. \<forall>s. transformation_specification r = Some s \<longrightarrow>
              (\<forall>tok\<in>set (split_pipe s).
                 \<not> (\<exists>suf\<in>set suffixes_to_remove. suffix suf tok)))"
    by blast
  from o ev have once: "once = ?t1" by simp
  have "\<forall>r\<in>set ?t1. \<forall>s. transformation_specification r = Some s \<longrightarrow>
              (\<forall>tok\<in>set (split_pipe s).
                 \<not> (\<exists>suf\<in>set suffixes_to_remove. suffix suf tok))"
    by (simp add: suffixes_to_remove_def suffix_Cons)
  with iff once have "twice = ?t1" by simp
  with t once ev show ?thesis by simp
qed

end
